theory Spec2Isabelle
  imports Complex_Main "HOL-Library.AList"
begin

section \<open>Conventions of the embedding\<close>

text \<open>
  Python floats are read as real numbers and Python ints as unbounded integers; a
  dictionary with the fixed keys \<open>x\<close>, \<open>y\<close>, \<open>z\<close> is a record. An exception is a
  value of \<open>py_error\<close> on the left of a sum.
\<close>

datatype py_error = ZeroDivisionError | ValueError | IndexError

record vec3 =
  vx :: real
  vy :: real
  vz :: real

section \<open>player.py\<close>

text \<open>
  The fields of \<open>Player\<close> that the functions embedded here read or write; the others
  (\<open>acceleration\<close>, \<open>vehicle_stats\<close>, \<open>score\<close>, \<open>distance_traveled\<close>,
  \<open>race_position\<close>, \<open>ping\<close>) are set by the constructor and not touched again.
  \<open>websocket\<close> is the handle of the connection the player was created for, \<open>pid\<close>
  and \<open>pname\<close> are the fields \<open>id\<close> and \<open>name\<close>.
\<close>

record player =
  pid :: string
  pname :: string
  vehicle_type :: string
  websocket :: nat
  position :: vec3
  rotation :: vec3
  velocity :: vec3
  best_lap_time :: "real option"
  current_lap_start :: "real option"
  last_update :: real
  checkpoints_passed :: "int list"
  current_checkpoint :: int

definition update_lap_time :: "player \<Rightarrow> real \<Rightarrow> player" where
  "update_lap_time self current_time =
     (case current_lap_start self of
        Some start \<Rightarrow>
          (let lap_time = current_time - start;
               self1 = (if best_lap_time self = None \<or> lap_time < the (best_lap_time self)
                        then self\<lparr>best_lap_time := Some lap_time\<rparr> else self)
           in self1\<lparr>current_lap_start := Some current_time\<rparr>)
      | None \<Rightarrow> self\<lparr>current_lap_start := Some current_time\<rparr>)"

definition reset_checkpoints :: "player \<Rightarrow> player" where
  "reset_checkpoints self = self\<lparr>checkpoints_passed := [], current_checkpoint := 0\<rparr>"

definition pass_checkpoint :: "player \<Rightarrow> int \<Rightarrow> real \<Rightarrow> player" where
  "pass_checkpoint self checkpoint_id current_time =
     (if checkpoint_id \<notin> set (checkpoints_passed self) then
        (let self1 = self\<lparr>checkpoints_passed := checkpoints_passed self @ [checkpoint_id],
                            current_checkpoint := checkpoint_id\<rparr>
         in if checkpoint_id = 0 then update_lap_time self1 current_time else self1)
      else self)"

text \<open>
  The lap durations a sequence of \<open>update_lap_time\<close> calls completes: the first call
  of a player with no lap running only starts the clock; every later call closes the lap
  that began at the call before it.
\<close>

fun lap_durations :: "real \<Rightarrow> real list \<Rightarrow> real list" where
  "lap_durations start [] = []"
| "lap_durations start (t # ts) = (t - start) # lap_durations t ts"

definition recorded_laps :: "player \<Rightarrow> real list \<Rightarrow> real list" where
  "recorded_laps self ts =
     (case current_lap_start self of
        Some start \<Rightarrow> lap_durations start ts
      | None \<Rightarrow> (case ts of [] \<Rightarrow> [] | t # ts' \<Rightarrow> lap_durations t ts'))"

definition best_candidates :: "player \<Rightarrow> real list \<Rightarrow> real set" where
  "best_candidates self ts =
     set (recorded_laps self ts) \<union> (case best_lap_time self of None \<Rightarrow> {} | Some b \<Rightarrow> {b})"

section \<open>world_generator.py\<close>

subsection \<open>What the module takes from outside the repository\<close>

text \<open>
  The noise library, the hash of a pair of ints and the standard random generator are not
  part of the repository; they are parameters of the embedding. \<open>'g\<close> is the state of
  one \<open>random.Random\<close> instance, and every draw returns the value drawn and the new
  state. \<open>pnoise2 nx nz octaves persistence lacunarity repeatx repeaty base\<close>.
\<close>

record 'g pylib =
  pnoise2 :: "real \<Rightarrow> real \<Rightarrow> nat \<Rightarrow> real \<Rightarrow> real \<Rightarrow> int \<Rightarrow> int \<Rightarrow> int \<Rightarrow> real"
  py_hash :: "int \<Rightarrow> int \<Rightarrow> int"
  Random :: "int \<Rightarrow> 'g"
  rng_random :: "'g \<Rightarrow> real \<times> 'g"
  rng_randint :: "int \<Rightarrow> int \<Rightarrow> 'g \<Rightarrow> int \<times> 'g"
  rng_choice :: "string list \<Rightarrow> 'g \<Rightarrow> string \<times> 'g"

subsection \<open>Exceptions\<close>

definition bindE :: "py_error + 'a \<Rightarrow> ('a \<Rightarrow> py_error + 'b) \<Rightarrow> py_error + 'b" where
  "bindE m f = (case m of Inl e \<Rightarrow> Inl e | Inr v \<Rightarrow> f v)"

fun mapE :: "('a \<Rightarrow> py_error + 'b) \<Rightarrow> 'a list \<Rightarrow> py_error + 'b list" where
  "mapE f [] = Inr []"
| "mapE f (x # xs) = bindE (f x) (\<lambda>y. bindE (mapE f xs) (\<lambda>ys. Inr (y # ys)))"

definition py_sqrt :: "real \<Rightarrow> py_error + real" where
  "py_sqrt v = (if v < 0 then Inl ValueError else Inr (sqrt v))"

definition py_div :: "real \<Rightarrow> real \<Rightarrow> py_error + real" where
  "py_div a b = (if b = 0 then Inl ZeroDivisionError else Inr (a / b))"

text \<open>
  \<open>xs[i]\<close>: an index from \<open>-len(xs)\<close> up to \<open>-1\<close> counts from the end, any index
  outside \<open>-len(xs) .. len(xs) - 1\<close> raises.
\<close>

definition py_index :: "'a list \<Rightarrow> int \<Rightarrow> py_error + 'a" where
  "py_index xs i =
     (if 0 \<le> i \<and> i < int (length xs) then Inr (xs ! nat i)
      else if - int (length xs) \<le> i \<and> i < 0 then Inr (xs ! nat (int (length xs) + i))
      else Inl IndexError)"

subsection \<open>Data\<close>

record point =
  px :: real
  pz :: real

datatype scenery =
    Tree (treeType: string) (obj_position: vec3) (rotation_y: real) (scale: real)
  | Building (buildingType: string) (obj_position: vec3) (rotation_y: real) (scale: real)

record vertex =
  v_position :: vec3
  normal :: vec3
  uv :: "real \<times> real"

record chunk =
  c_position :: "int \<times> int"
  c_size :: int
  resolution :: nat
  heightmap :: "real list list"
  vertices :: "vertex list"
  indices :: "nat list"
  c_roads :: "(point \<times> point) list"
  objects :: "scenery list"

record world_generator =
  seed :: int
  chunks :: "string \<Rightarrow> chunk option"
  roads :: "point list list"

definition world_size :: real where "world_size = 10000"
definition chunk_size :: int where "chunk_size = 500"
definition terrain_scale :: real where "terrain_scale = 0.02"
definition terrain_height :: real where "terrain_height = 100"
definition road_width :: real where "road_width = 15"

subsection \<open>Distance to the roads\<close>

definition point_to_line_distance ::
  "real \<Rightarrow> real \<Rightarrow> real \<Rightarrow> real \<Rightarrow> real \<Rightarrow> real \<Rightarrow> py_error + real" where
  "point_to_line_distance x z x1 z1 x2 z2 =
     (let A = x2 - x1; B = z2 - z1;
          C = x - x1; D = z - z1;
          dot = A * A + B * B
      in if dot = 0 then py_sqrt (C * C + D * D)
         else bindE (py_div (A * C + B * D) dot) (\<lambda>param.
           if param < 0 then py_sqrt (C * C + D * D)
           else if param > 1 then py_sqrt ((x - x2)\<^sup>2 + (z - z2)\<^sup>2)
           else (let proj_x = x1 + param * A; proj_z = z1 + param * B
                 in py_sqrt ((x - proj_x)\<^sup>2 + (z - proj_z)\<^sup>2))))"

text \<open>
  The consecutive pairs \<open>road[i], road[i + 1]\<close> for \<open>i\<close> in \<open>range(len(road) - 1)\<close>.
\<close>

definition road_segments :: "point list \<Rightarrow> (point \<times> point) list" where
  "road_segments road = zip road (tl road)"

text \<open>
  \<open>min_distance\<close> starts at \<open>float('inf')\<close>, which is \<open>None\<close> here. The inner loop
  runs over the segments of one road, the outer loop over the roads.
\<close>

fun min_distance_segments ::
  "(point \<times> point) list \<Rightarrow> real \<Rightarrow> real \<Rightarrow> real option \<Rightarrow> py_error + real option" where
  "min_distance_segments [] x z min_distance = Inr min_distance"
| "min_distance_segments ((p1, p2) # segs) x z min_distance =
     bindE (point_to_line_distance x z (px p1) (pz p1) (px p2) (pz p2)) (\<lambda>line_dist.
       min_distance_segments segs x z
         (Some (case min_distance of None \<Rightarrow> line_dist | Some m \<Rightarrow> min m line_dist)))"

fun min_distance_roads ::
  "point list list \<Rightarrow> real \<Rightarrow> real \<Rightarrow> real option \<Rightarrow> py_error + real option" where
  "min_distance_roads [] x z min_distance = Inr min_distance"
| "min_distance_roads (road # rest) x z min_distance =
     bindE (min_distance_segments (road_segments road) x z min_distance)
       (\<lambda>m. min_distance_roads rest x z m)"

definition get_road_factor :: "world_generator \<Rightarrow> real \<Rightarrow> real \<Rightarrow> py_error + real" where
  "get_road_factor self x z =
     bindE (min_distance_roads (roads self) x z None) (\<lambda>min_distance.
       case min_distance of
         None \<Rightarrow> Inr 1
       | Some d \<Rightarrow> if d > road_width then Inr 1 else py_div d road_width)"

definition get_road_height :: "'g pylib \<Rightarrow> world_generator \<Rightarrow> real \<Rightarrow> real \<Rightarrow> real" where
  "get_road_height L self x z =
     (let nx = x * terrain_scale * 0.2;
          nz = z * terrain_scale * 0.2;
          base_height = pnoise2 L nx nz 2 0.5 2 1024 1024 (seed self)
      in (base_height + 1) * 0.5 * terrain_height * 0.2)"

definition get_terrain_height ::
  "'g pylib \<Rightarrow> world_generator \<Rightarrow> real \<Rightarrow> real \<Rightarrow> py_error + real" where
  "get_terrain_height L self x z =
     (let nx = x * terrain_scale;
          nz = z * terrain_scale;
          base_height = pnoise2 L nx nz 6 0.5 2 1024 1024 (seed self);
          terrain = (base_height + 1) * 0.5 * terrain_height
      in bindE (get_road_factor self x z) (\<lambda>road_factor.
           if road_factor < 1 then
             (let road_height = get_road_height L self x z
              in Inr (terrain * road_factor + road_height * (1 - road_factor)))
           else Inr terrain))"

subsection \<open>Normals\<close>

definition calculate_normal :: "real list list \<Rightarrow> int \<Rightarrow> int \<Rightarrow> int \<Rightarrow> py_error + vec3" where
  "calculate_normal hm x z res =
     (let x_prev = (if x = 0 then x else x - 1);
          x_next = (if x = res then x else x + 1);
          z_prev = (if z = 0 then z else z - 1);
          z_next = (if z = res then z else z + 1)
      in bindE (bindE (py_index hm z_prev) (\<lambda>row. py_index row x)) (\<lambda>h_up.
         bindE (bindE (py_index hm z_next) (\<lambda>row. py_index row x)) (\<lambda>h_down.
         bindE (bindE (py_index hm z) (\<lambda>row. py_index row x_prev)) (\<lambda>h_left.
         bindE (bindE (py_index hm z) (\<lambda>row. py_index row x_next)) (\<lambda>h_right.
           (let nx = h_left - h_right;
                nz = h_up - h_down
            in bindE (py_sqrt (nx * nx + 4 + nz * nz)) (\<lambda>len.
               bindE (py_div nx len) (\<lambda>nx'.
               bindE (py_div 2 len) (\<lambda>ny.
               bindE (py_div nz len) (\<lambda>nz'.
                 Inr \<lparr>vx = nx', vy = ny, vz = nz'\<rparr>))))))))))"

subsection \<open>Scenery\<close>

text \<open>
  The two placement loops. Each pass draws from the chunk's generator in the order of the
  source: the two offsets, then (for a position that is kept) the type, the scale and
  the rotation. A rejected position ends the pass (\<open>continue\<close>).
\<close>

fun place_trees ::
  "'g pylib \<Rightarrow> world_generator \<Rightarrow> int \<Rightarrow> int \<Rightarrow> nat \<Rightarrow> 'g \<Rightarrow> scenery list
     \<Rightarrow> py_error + (scenery list \<times> 'g)" where
  "place_trees L self world_x world_z 0 rng objs = Inr (objs, rng)"
| "place_trees L self world_x world_z (Suc n) rng objs =
     (let (r1, rng1) = rng_random L rng;
          x_offset = r1 * real_of_int chunk_size;
          (r2, rng2) = rng_random L rng1;
          z_offset = r2 * real_of_int chunk_size;
          x_pos = real_of_int world_x + x_offset;
          z_pos = real_of_int world_z + z_offset
      in bindE (get_road_factor self x_pos z_pos) (\<lambda>road_factor.
           if road_factor < 0.9 then place_trees L self world_x world_z n rng2 objs
           else bindE (get_terrain_height L self x_pos z_pos) (\<lambda>height.
             (let (tree_type, rng3) = rng_choice L [''pine'', ''oak'', ''palm''] rng2;
                  (r3, rng4) = rng_random L rng3;
                  tree_scale = 0.8 + r3 * 0.4;
                  (r4, rng5) = rng_random L rng4
              in place_trees L self world_x world_z n rng5
                   (objs @ [Tree tree_type \<lparr>vx = x_pos, vy = height, vz = z_pos\<rparr>
                              (r4 * 360) tree_scale])))))"

fun place_buildings ::
  "'g pylib \<Rightarrow> world_generator \<Rightarrow> int \<Rightarrow> int \<Rightarrow> nat \<Rightarrow> 'g \<Rightarrow> scenery list
     \<Rightarrow> py_error + (scenery list \<times> 'g)" where
  "place_buildings L self world_x world_z 0 rng objs = Inr (objs, rng)"
| "place_buildings L self world_x world_z (Suc n) rng objs =
     (let (r1, rng1) = rng_random L rng;
          x_offset = r1 * real_of_int chunk_size;
          (r2, rng2) = rng_random L rng1;
          z_offset = r2 * real_of_int chunk_size;
          x_pos = real_of_int world_x + x_offset;
          z_pos = real_of_int world_z + z_offset
      in bindE (get_road_factor self x_pos z_pos) (\<lambda>road_factor.
           if road_factor < 0.5 \<or> road_factor > 0.9
           then place_buildings L self world_x world_z n rng2 objs
           else bindE (get_terrain_height L self x_pos z_pos) (\<lambda>height.
             (let (building_type, rng3) = rng_choice L [''house'', ''shop'', ''garage''] rng2;
                  (r3, rng4) = rng_random L rng3;
                  building_scale = 1.0 + r3 * 0.5;
                  (k, rng5) = rng_randint L 0 3 rng4
              in place_buildings L self world_x world_z n rng5
                   (objs @ [Building building_type \<lparr>vx = x_pos, vy = height, vz = z_pos\<rparr>
                              (real_of_int (k * 90)) building_scale])))))"

text \<open>
  \<open>range(n)\<close> of a Python int \<open>n\<close> has \<open>nat n\<close> elements (none when \<open>n \<le> 0\<close>). The
  \<open>heightmap\<close> argument is not read by the source either.
\<close>

definition generate_objects ::
  "'g pylib \<Rightarrow> world_generator \<Rightarrow> int \<Rightarrow> int \<Rightarrow> real list list \<Rightarrow> py_error + scenery list" where
  "generate_objects L self chunk_x chunk_z hm =
     (let world_x = chunk_x * chunk_size;
          world_z = chunk_z * chunk_size;
          rng = Random L (seed self + py_hash L chunk_x chunk_z);
          (num_trees, rng1) = rng_randint L 5 20 rng;
          (num_buildings, rng2) = rng_randint L 0 2 rng1
      in bindE (place_trees L self world_x world_z (nat num_trees) rng2 []) (\<lambda>(objs, rng3).
         bindE (place_buildings L self world_x world_z (nat num_buildings) rng3 objs)
           (\<lambda>(objs', rng4). Inr objs')))"

subsection \<open>The road network\<close>

text \<open>
  No division of this function can fail: \<open>i / num_radial\<close> is evaluated inside
  \<open>range(num_radial)\<close> and \<open>j / num_points\<close> inside \<open>range(1, num_points)\<close>, where
  the divisor is positive, and \<open>random_road[-1]\<close> reads a list that has its start point.
\<close>

fun circle_points :: "'g pylib \<Rightarrow> nat list \<Rightarrow> 'g \<Rightarrow> point list \<Rightarrow> point list \<times> 'g" where
  "circle_points L [] rng road = (road, rng)"
| "circle_points L (i # rest) rng road =
     (let radius = world_size * 0.3;
          center_x = world_size * 0.5;
          center_z = world_size * 0.5;
          angle = (real i / 36) * 2 * pi;
          x = center_x + cos angle * radius;
          z = center_z + sin angle * radius
      in if i > 0 \<and> i < 36 then
           (let (r1, rng1) = rng_random L rng;
                x' = x + (r1 - 0.5) * radius * 0.2;
                (r2, rng2) = rng_random L rng1;
                z' = z + (r2 - 0.5) * radius * 0.2
            in circle_points L rest rng2 (road @ [\<lparr>px = x', pz = z'\<rparr>]))
         else circle_points L rest rng (road @ [\<lparr>px = x, pz = z\<rparr>]))"

fun radial_points ::
  "'g pylib \<Rightarrow> real \<Rightarrow> real \<Rightarrow> int \<Rightarrow> nat list \<Rightarrow> 'g \<Rightarrow> point list \<Rightarrow> point list \<times> 'g" where
  "radial_points L end_x end_z num_points [] rng road = (road, rng)"
| "radial_points L end_x end_z num_points (j # rest) rng road =
     (let center_x = world_size * 0.5;
          center_z = world_size * 0.5;
          t = real j / real_of_int num_points;
          x = center_x + (end_x - center_x) * t;
          z = center_z + (end_z - center_z) * t;
          deviation = world_size * 0.05 * (1 - t);
          (r1, rng1) = rng_random L rng;
          x' = x + (r1 - 0.5) * deviation;
          (r2, rng2) = rng_random L rng1;
          z' = z + (r2 - 0.5) * deviation
      in radial_points L end_x end_z num_points rest rng2 (road @ [\<lparr>px = x', pz = z'\<rparr>]))"

fun radial_roads ::
  "'g pylib \<Rightarrow> int \<Rightarrow> nat list \<Rightarrow> 'g \<Rightarrow> point list list \<Rightarrow> point list list \<times> 'g" where
  "radial_roads L num_radial [] rng rds = (rds, rng)"
| "radial_roads L num_radial (i # rest) rng rds =
     (let center_x = world_size * 0.5;
          center_z = world_size * 0.5;
          angle = (real i / real_of_int num_radial) * 2 * pi;
          end_x = center_x + cos angle * world_size * 0.5;
          end_z = center_z + sin angle * world_size * 0.5;
          (num_points, rng1) = rng_randint L 3 6 rng;
          (road, rng2) = radial_points L end_x end_z num_points [1..<nat num_points] rng1
                           [\<lparr>px = center_x, pz = center_z\<rparr>]
      in radial_roads L num_radial rest rng2 (rds @ [road @ [\<lparr>px = end_x, pz = end_z\<rparr>]]))"

fun random_points :: "'g pylib \<Rightarrow> nat \<Rightarrow> real \<Rightarrow> 'g \<Rightarrow> point list \<Rightarrow> point list \<times> 'g" where
  "random_points L 0 angle rng road = (road, rng)"
| "random_points L (Suc n) angle rng road =
     (let (r1, rng1) = rng_random L rng;
          angle' = angle + (r1 - 0.5) * 0.5;
          (segment_length, rng2) = rng_randint L 100 300 rng1;
          x = px (last road) + cos angle' * real_of_int segment_length;
          z = pz (last road) + sin angle' * real_of_int segment_length;
          x' = max 0 (min x world_size);
          z' = max 0 (min z world_size)
      in random_points L n angle' rng2 (road @ [\<lparr>px = x', pz = z'\<rparr>]))"

fun random_roads :: "'g pylib \<Rightarrow> nat \<Rightarrow> 'g \<Rightarrow> point list list \<Rightarrow> point list list \<times> 'g" where
  "random_roads L 0 rng rds = (rds, rng)"
| "random_roads L (Suc n) rng rds =
     (let (r1, rng1) = rng_random L rng;
          start_x = r1 * world_size;
          (r2, rng2) = rng_random L rng1;
          start_z = r2 * world_size;
          (len, rng3) = rng_randint L 3 8 rng2;
          (r3, rng4) = rng_random L rng3;
          angle = r3 * 2 * pi;
          (road, rng5) = random_points L (nat len - 1) angle rng4
                           [\<lparr>px = start_x, pz = start_z\<rparr>]
      in random_roads L n rng5 (rds @ [road]))"

definition generate_road_network :: "'g pylib \<Rightarrow> int \<Rightarrow> point list list" where
  "generate_road_network L sd =
     (let rng = Random L sd;
          (circle_road, rng1) = circle_points L [0..<37] rng [];
          (num_radial, rng2) = rng_randint L 4 8 rng1;
          (rds, rng3) = radial_roads L num_radial [0..<nat num_radial] rng2 [circle_road];
          (num_random, rng4) = rng_randint L 5 10 rng3;
          (rds', rng5) = random_roads L (nat num_random) rng4 rds
      in rds')"

subsection \<open>Chunks\<close>

text \<open>
  The loops that fill a list by \<open>append\<close> are maps over the ranges they run through;
  \<open>List.product zs xs\<close> lists the pairs with the \<open>z\<close> loop outside, as the source
  nests them. The resolution \<open>res\<close> is the local constant 16 of \<open>_generate_chunk\<close>,
  passed on to the loops. Names of the source that begin with an underscore are written
  without it.
\<close>

definition chunk_heightmap ::
  "'g pylib \<Rightarrow> world_generator \<Rightarrow> int \<Rightarrow> int \<Rightarrow> nat \<Rightarrow> py_error + real list list" where
  "chunk_heightmap L self world_x world_z res =
     mapE (\<lambda>z. mapE (\<lambda>x.
             (let pos_x = real_of_int world_x + (real x / real res) * real_of_int chunk_size;
                  pos_z = real_of_int world_z + (real z / real res) * real_of_int chunk_size
              in get_terrain_height L self pos_x pos_z)) [0..<res + 1]) [0..<res + 1]"

definition chunk_vertices ::
  "real list list \<Rightarrow> int \<Rightarrow> int \<Rightarrow> nat \<Rightarrow> py_error + vertex list" where
  "chunk_vertices hm world_x world_z res =
     mapE (\<lambda>(z, x).
        bindE (bindE (py_index hm (int z)) (\<lambda>row. py_index row (int x))) (\<lambda>h.
        bindE (calculate_normal hm (int x) (int z) (int res)) (\<lambda>n.
          Inr \<lparr>v_position =
                 \<lparr>vx = real_of_int world_x + (real x / real res) * real_of_int chunk_size,
                  vy = h,
                  vz = real_of_int world_z + (real z / real res) * real_of_int chunk_size\<rparr>,
               normal = n,
               uv = (real x / real res, real z / real res)\<rparr>)))
       (List.product [0..<res + 1] [0..<res + 1])"

definition chunk_indices :: "nat \<Rightarrow> nat list" where
  "chunk_indices res =
     concat (map (\<lambda>(z, x).
        (let i0 = z * (res + 1) + x;
             i1 = z * (res + 1) + x + 1;
             i2 = (z + 1) * (res + 1) + x;
             i3 = (z + 1) * (res + 1) + x + 1
         in [i0, i2, i1] @ [i1, i2, i3])) (List.product [0..<res] [0..<res]))"

definition chunk_road_segments ::
  "world_generator \<Rightarrow> int \<Rightarrow> int \<Rightarrow> (point \<times> point) list" where
  "chunk_road_segments self world_x world_z =
     concat (map (\<lambda>road.
        filter (\<lambda>(p1, p2).
          (let min_x = real_of_int world_x;
               max_x = real_of_int (world_x + chunk_size);
               min_z = real_of_int world_z;
               max_z = real_of_int (world_z + chunk_size)
           in ((min_x \<le> px p1 \<and> px p1 \<le> max_x) \<or> (min_x \<le> px p2 \<and> px p2 \<le> max_x)) \<and>
              ((min_z \<le> pz p1 \<and> pz p1 \<le> max_z) \<or> (min_z \<le> pz p2 \<and> pz p2 \<le> max_z))))
          (road_segments road)) (roads self))"

definition generate_chunk ::
  "'g pylib \<Rightarrow> world_generator \<Rightarrow> int \<Rightarrow> int \<Rightarrow> py_error + chunk" where
  "generate_chunk L self chunk_x chunk_z =
     (let world_x = chunk_x * chunk_size;
          world_z = chunk_z * chunk_size;
          res = 16
      in bindE (chunk_heightmap L self world_x world_z res) (\<lambda>hm.
         bindE (chunk_vertices hm world_x world_z res) (\<lambda>vs.
         bindE (generate_objects L self chunk_x chunk_z hm) (\<lambda>objs.
           Inr \<lparr>c_position = (world_x, world_z),
                c_size = chunk_size,
                resolution = res,
                heightmap = hm,
                vertices = vs,
                indices = chunk_indices res,
                c_roads = chunk_road_segments self world_x world_z,
                objects = objs\<rparr>))))"

text \<open>\<open>str\<close> of a Python int, for the cache key \<open>f"{chunk_x},{chunk_z}"\<close>.\<close>

fun str_nat :: "nat \<Rightarrow> string" where
  "str_nat n = (if n < 10 then [char_of (48 + n)]
                else str_nat (n div 10) @ [char_of (48 + n mod 10)])"

declare str_nat.simps [simp del]

definition str_int :: "int \<Rightarrow> string" where
  "str_int i = (if i < 0 then CHR ''-'' # str_nat (nat (- i)) else str_nat (nat i))"

definition chunk_key :: "int \<Rightarrow> int \<Rightarrow> string" where
  "chunk_key chunk_x chunk_z = str_int chunk_x @ '','' @ str_int chunk_z"

definition get_chunk ::
  "'g pylib \<Rightarrow> world_generator \<Rightarrow> int \<Rightarrow> int \<Rightarrow> py_error + (chunk \<times> world_generator)" where
  "get_chunk L self chunk_x chunk_z =
     (case chunks self (chunk_key chunk_x chunk_z) of
        Some c \<Rightarrow> Inr (c, self)
      | None \<Rightarrow>
          bindE (generate_chunk L self chunk_x chunk_z) (\<lambda>c.
            Inr (c, self\<lparr>chunks := (chunks self)(chunk_key chunk_x chunk_z \<mapsto> c)\<rparr>)))"

text \<open>
  The constructor. (It also seeds the module-level generator, which no function of this
  class reads.)
\<close>

definition WorldGenerator :: "'g pylib \<Rightarrow> int \<Rightarrow> world_generator" where
  "WorldGenerator L sd = \<lparr>seed = sd, chunks = Map.empty, roads = generate_road_network L sd\<rparr>"

text \<open>A sequence of chunk requests to one generator, each served by \<open>get_chunk\<close>.\<close>

fun get_chunks ::
  "'g pylib \<Rightarrow> world_generator \<Rightarrow> (int \<times> int) list \<Rightarrow> py_error + world_generator" where
  "get_chunks L self [] = Inr self"
| "get_chunks L self ((cx, cz) # rest) =
     bindE (get_chunk L self cx cz) (\<lambda>(c, self'). get_chunks L self' rest)"

section \<open>game_state.py\<close>

text \<open>
  \<open>Player\<close> objects are shared: the table of the game state, the table of connections
  and the handler of a connection all hold references to the same object. The objects
  live in a store, and the tables hold addresses. A Python dict is an association list
  in insertion order; assigning to a key that is present keeps its place.
\<close>

type_synonym addr = nat

record collision_event =
  e_type :: string
  e_time :: real
  e_players :: "string list"
  e_position :: vec3

record game_state =
  players :: "(string \<times> addr) list"
  start_time :: real
  current_time :: real
  tick_count :: int
  world_seed :: int
  world_generator :: world_generator
  events :: "collision_event list"

definition playerTimeout :: real where "playerTimeout = 30"

text \<open>
  The constructor; the two readings of the clock and the seed drawn from the module-level
  generator are arguments.
\<close>

definition GameState :: "'g pylib \<Rightarrow> real \<Rightarrow> real \<Rightarrow> int \<Rightarrow> game_state" where
  "GameState L now1 now2 sd =
     \<lparr>players = [], start_time = now1, current_time = now2, tick_count = 0,
      world_seed = sd, world_generator = WorldGenerator L sd, events = []\<rparr>"

definition remove_player :: "game_state \<Rightarrow> string \<Rightarrow> game_state" where
  "remove_player self player_id =
     (if player_id \<in> fst ` set (players self)
      then self\<lparr>players := AList.delete player_id (players self)\<rparr>
      else self)"

text \<open>
  \<open>add_player\<close> writes the spawn position into the player object; \<open>r\<close> is the value of
  \<open>random.random()\<close>.
\<close>

definition add_player ::
  "(addr \<Rightarrow> player) \<Rightarrow> game_state \<Rightarrow> addr \<Rightarrow> real \<Rightarrow> (addr \<Rightarrow> player) \<times> game_state" where
  "add_player heap self a r =
     (let self1 = self\<lparr>players := AList.update (pid (heap a)) a (players self)\<rparr>;
          spawn_radius = 20;
          angle = r * 2 * pi;
          p = (heap a)\<lparr>position := \<lparr>vx = cos angle * spawn_radius, vy = 0.5,
                                       vz = sin angle * spawn_radius\<rparr>,
                        rotation := \<lparr>vx = 0, vy = angle, vz = 0\<rparr>\<rparr>
      in (heap(a := p), self1))"

record public_player =
  pp_id :: string
  pp_name :: string
  pp_position :: vec3
  pp_rotation :: vec3
  pp_vehicleType :: string

record public_state =
  ps_players :: "(string \<times> public_player) list"
  ps_time :: real
  ps_playerCount :: nat

definition get_public_state :: "(addr \<Rightarrow> player) \<Rightarrow> game_state \<Rightarrow> public_state" where
  "get_public_state heap self =
     \<lparr>ps_players =
        map (\<lambda>(player_id, a).
               (player_id, \<lparr>pp_id = pid (heap a), pp_name = pname (heap a),
                             pp_position = position (heap a), pp_rotation = rotation (heap a),
                             pp_vehicleType = vehicle_type (heap a)\<rparr>)) (players self),
      ps_time = current_time self - start_time self,
      ps_playerCount = length (players self)\<rparr>"

definition cleanup_inactive_players :: "(addr \<Rightarrow> player) \<Rightarrow> game_state \<Rightarrow> game_state" where
  "cleanup_inactive_players heap self =
     (let inactive_threshold = current_time self - playerTimeout;
          inactive_players =
            map fst (filter (\<lambda>(player_id, a). last_update (heap a) < inactive_threshold)
                       (players self))
      in foldl remove_player self inactive_players)"

text \<open>
  The proximity scan: the inner loop compares one player with every entry of the table,
  the outer loop runs through the table. Both append to the event log.
\<close>

fun scan_others ::
  "(addr \<Rightarrow> player) \<Rightarrow> real \<Rightarrow> string \<Rightarrow> addr \<Rightarrow> (string \<times> addr) list
     \<Rightarrow> collision_event list \<Rightarrow> collision_event list" where
  "scan_others heap now player_id a [] evs = evs"
| "scan_others heap now player_id a ((other_id, b) # rest) evs =
     scan_others heap now player_id a rest
       (if player_id \<noteq> other_id then
          (let p1 = position (heap a);
               p2 = position (heap b);
               distance = sqrt ((vx p1 - vx p2)\<^sup>2 + (vy p1 - vy p2)\<^sup>2 + (vz p1 - vz p2)\<^sup>2)
           in if distance < 2 then
                evs @ [\<lparr>e_type = ''collision'',
                         e_time = now,
                         e_players = [player_id, other_id],
                         e_position = \<lparr>vx = (vx p1 + vx p2) / 2,
                                        vy = (vy p1 + vy p2) / 2,
                                        vz = (vz p1 + vz p2) / 2\<rparr>\<rparr>]
              else evs)
        else evs)"

fun scan_players ::
  "(addr \<Rightarrow> player) \<Rightarrow> real \<Rightarrow> (string \<times> addr) list \<Rightarrow> (string \<times> addr) list
     \<Rightarrow> collision_event list \<Rightarrow> collision_event list" where
  "scan_players heap now [] table evs = evs"
| "scan_players heap now ((player_id, a) # rest) table evs =
     scan_players heap now rest table (scan_others heap now player_id a table evs)"

definition process_events :: "(addr \<Rightarrow> player) \<Rightarrow> game_state \<Rightarrow> game_state" where
  "process_events heap self =
     self\<lparr>events := scan_players heap (current_time self) (players self) (players self)
                        (events self)\<rparr>"

text \<open>\<open>update\<close>, with the reading of the clock as an argument.\<close>

definition update :: "(addr \<Rightarrow> player) \<Rightarrow> game_state \<Rightarrow> real \<Rightarrow> game_state" where
  "update heap self now =
     (let self1 = self\<lparr>current_time := now, tick_count := tick_count self + 1\<rparr>;
          self2 = cleanup_inactive_players heap self1
      in process_events heap self2)"

section \<open>app.py\<close>

text \<open>
  The messages the server sends, and what it receives on a connection: a text frame that
  parses to an object (of which the fields the server reads are kept, with \<open>m_type\<close>
  the value of \<open>message.get("type", "")\<close>), a text frame that does not (the handler
  then lands in \<open>except Exception\<close>), or the end of the connection
  (\<open>WebSocketDisconnect\<close>).
\<close>

datatype out_message =
    Init string public_state int
  | PlayerJoined string string string vec3 vec3
  | PlayerPosition string vec3 vec3 vec3
  | Chat string string string
  | Pong "real option"
  | PlayerLeft string

record message =
  m_type :: string
  m_position :: "vec3 option"
  m_rotation :: "vec3 option"
  m_velocity :: "vec3 option"
  m_message :: "string option"
  m_timestamp :: "real option"

datatype frame = Text message | Unparseable | WebSocketDisconnect

record init_json =
  playerId :: "string option"
  playerName :: "string option"
  vehicleType :: "string option"

text \<open>
  The module state: the store of player objects (with the next free address), the game
  state, the table of connections, and the log of the \<open>send_json\<close> calls made, each
  with the handle of the websocket it went to. A send that fails inside
  \<open>broadcast_message\<close> is caught there, so the log lists the sends attempted. One step
  of a handler runs without interleaving.
\<close>

record server =
  heap :: "addr \<Rightarrow> player"
  next_addr :: addr
  game_state :: game_state
  connected_players :: "(string \<times> addr) list"
  outbox :: "(nat \<times> out_message) list"

text \<open>The locals of one run of \<open>websocket_endpoint\<close> once the player is created.\<close>

record handler =
  h_websocket :: nat
  h_player_id :: string
  h_player :: addr

definition Player :: "string \<Rightarrow> string \<Rightarrow> string \<Rightarrow> nat \<Rightarrow> real \<Rightarrow> player" where
  "Player i n vt ws now =
     \<lparr>pid = i, pname = n, vehicle_type = vt, websocket = ws,
      position = \<lparr>vx = 0, vy = 0, vz = 0\<rparr>, rotation = \<lparr>vx = 0, vy = 0, vz = 0\<rparr>,
      velocity = \<lparr>vx = 0, vy = 0, vz = 0\<rparr>, best_lap_time = None,
      current_lap_start = None, last_update = now, checkpoints_passed = [],
      current_checkpoint = 0\<rparr>"

fun broadcast_loop ::
  "(addr \<Rightarrow> player) \<Rightarrow> out_message \<Rightarrow> string option \<Rightarrow> (string \<times> addr) list
     \<Rightarrow> (nat \<times> out_message) list \<Rightarrow> (nat \<times> out_message) list" where
  "broadcast_loop hp msg exclude [] out = out"
| "broadcast_loop hp msg exclude ((player_id, a) # rest) out =
     broadcast_loop hp msg exclude rest
       (if Some player_id \<noteq> exclude then out @ [(websocket (hp a), msg)] else out)"

definition broadcast_message :: "server \<Rightarrow> out_message \<Rightarrow> string option \<Rightarrow> server" where
  "broadcast_message srv msg exclude =
     srv\<lparr>outbox := broadcast_loop (heap srv) msg exclude (connected_players srv) (outbox srv)\<rparr>"

text \<open>
  The handshake, for a first frame that parses: \<open>now\<close> is the clock read by the
  \<open>Player\<close> constructor and \<open>r\<close> the draw of \<open>add_player\<close>.
\<close>

definition connect :: "server \<Rightarrow> nat \<Rightarrow> init_json \<Rightarrow> real \<Rightarrow> real \<Rightarrow> server \<times> handler" where
  "connect srv ws init now r =
     (let n = length (connected_players srv) + 1;
          player_id = (case playerId init of Some i \<Rightarrow> i | None \<Rightarrow> ''player_'' @ str_nat n);
          player_name = (case playerName init of Some i \<Rightarrow> i | None \<Rightarrow> ''Player '' @ str_nat n);
          vehicle = (case vehicleType init of Some v \<Rightarrow> v | None \<Rightarrow> ''default'');
          a = next_addr srv;
          hp1 = (heap srv)(a := Player player_id player_name vehicle ws now);
          conns = AList.update player_id a (connected_players srv);
          (hp2, gs) = add_player hp1 (game_state srv) a r;
          srv1 = srv\<lparr>heap := hp2, next_addr := a + 1, game_state := gs,
                     connected_players := conns,
                     outbox := outbox srv @
                       [(ws, Init player_id (get_public_state hp2 gs) (world_seed gs))]\<rparr>;
          srv2 = broadcast_message srv1
                   (PlayerJoined player_id player_name vehicle (position (hp2 a))
                      (rotation (hp2 a))) None
      in (srv2, \<lparr>h_websocket = ws, h_player_id = player_id, h_player = a\<rparr>))"

text \<open>
  One pass of the message loop, and the two exception handlers. The result says whether
  the loop goes on. A Python string is true when it is not empty.
\<close>

definition on_message :: "server \<Rightarrow> handler \<Rightarrow> message \<Rightarrow> server" where
  "on_message srv h msg =
     (if m_type msg = ''position'' then
        (let p = heap srv (h_player h);
             p1 = p\<lparr>position := (case m_position msg of Some v \<Rightarrow> v | None \<Rightarrow> position p)\<rparr>;
             p2 = p1\<lparr>rotation := (case m_rotation msg of Some v \<Rightarrow> v | None \<Rightarrow> rotation p1)\<rparr>;
             p3 = p2\<lparr>velocity := (case m_velocity msg of Some v \<Rightarrow> v | None \<Rightarrow> velocity p2)\<rparr>;
             p4 = p3\<lparr>last_update := current_time (game_state srv)\<rparr>;
             srv1 = srv\<lparr>heap := (heap srv)(h_player h := p4)\<rparr>
         in broadcast_message srv1
              (PlayerPosition (h_player_id h) (position p4) (rotation p4) (velocity p4))
              (Some (h_player_id h)))
      else if m_type msg = ''chat'' then
        broadcast_message srv
          (Chat (h_player_id h) (pname (heap srv (h_player h)))
             (case m_message msg of Some t \<Rightarrow> t | None \<Rightarrow> '''')) None
      else if m_type msg = ''ping'' then
        srv\<lparr>outbox := outbox srv @ [(h_websocket h, Pong (m_timestamp msg))]\<rparr>
      else srv)"

definition on_disconnect :: "server \<Rightarrow> handler \<Rightarrow> server" where
  "on_disconnect srv h =
     (if h_player_id h \<noteq> '''' then
        (let srv1 = (if h_player_id h \<in> fst ` set (connected_players srv)
                     then srv\<lparr>connected_players :=
                                 AList.delete (h_player_id h) (connected_players srv)\<rparr>
                     else srv);
             srv2 = srv1\<lparr>game_state := remove_player (game_state srv1) (h_player_id h)\<rparr>
         in broadcast_message srv2 (PlayerLeft (h_player_id h)) None)
      else srv)"

definition on_exception :: "server \<Rightarrow> handler \<Rightarrow> server" where
  "on_exception srv h =
     (if h_player_id h \<noteq> '''' \<and> h_player_id h \<in> fst ` set (connected_players srv) then
        (let srv1 = srv\<lparr>connected_players :=
                          AList.delete (h_player_id h) (connected_players srv)\<rparr>
         in srv1\<lparr>game_state := remove_player (game_state srv1) (h_player_id h)\<rparr>)
      else srv)"

definition receive :: "server \<Rightarrow> handler \<Rightarrow> frame \<Rightarrow> server \<times> bool" where
  "receive srv h f =
     (case f of
        Text msg \<Rightarrow> (on_message srv h msg, True)
      | Unparseable \<Rightarrow> (on_exception srv h, False)
      | WebSocketDisconnect \<Rightarrow> (on_disconnect srv h, False))"

text \<open>One pass of \<open>game_loop\<close>: the tick, with the clock as an argument.\<close>

definition game_loop :: "server \<Rightarrow> real \<Rightarrow> server" where
  "game_loop srv now = srv\<lparr>game_state := update (heap srv) (game_state srv) now\<rparr>"

section \<open>Notions used to state the properties\<close>

text \<open>
  The value \<open>point_to_line_distance\<close> computes, with its failure points left out, and
  from it the distance to the nearest segment of a road network (\<open>None\<close> for a network
  with no segment), the road factor, and the two heights that \<open>get_terrain_height\<close>
  blends. The lemmas below relate each of them to the function of the source.
\<close>

definition segment_distance :: "real \<Rightarrow> real \<Rightarrow> real \<Rightarrow> real \<Rightarrow> real \<Rightarrow> real \<Rightarrow> real" where
  "segment_distance x z x1 z1 x2 z2 =
     (let A = x2 - x1; B = z2 - z1; C = x - x1; D = z - z1; dot = A * A + B * B
      in if dot = 0 then sqrt (C * C + D * D)
         else (let param = (A * C + B * D) / dot
               in if param < 0 then sqrt (C * C + D * D)
                  else if param > 1 then sqrt ((x - x2)\<^sup>2 + (z - z2)\<^sup>2)
                  else sqrt ((x - (x1 + param * A))\<^sup>2 + (z - (z1 + param * B))\<^sup>2)))"

definition segment_distances :: "point list list \<Rightarrow> real \<Rightarrow> real \<Rightarrow> real list" where
  "segment_distances rds x z =
     map (\<lambda>(p1, p2). segment_distance x z (px p1) (pz p1) (px p2) (pz p2))
       (concat (map road_segments rds))"

definition nearest_road_distance :: "point list list \<Rightarrow> real \<Rightarrow> real \<Rightarrow> real option" where
  "nearest_road_distance rds x z =
     (if segment_distances rds x z = [] then None
      else Some (Min (set (segment_distances rds x z))))"

definition min_opt :: "real option \<Rightarrow> real list \<Rightarrow> real option" where
  "min_opt m ds = (case m of None \<Rightarrow> (if ds = [] then None else Some (Min (set ds)))
                   | Some v \<Rightarrow> Some (Min (insert v (set ds))))"

definition road_factor_of :: "point list list \<Rightarrow> real \<Rightarrow> real \<Rightarrow> real" where
  "road_factor_of rds x z =
     (case nearest_road_distance rds x z of None \<Rightarrow> 1 | Some d \<Rightarrow> min 1 (d / road_width))"

definition terrain_noise_height :: "'g pylib \<Rightarrow> world_generator \<Rightarrow> real \<Rightarrow> real \<Rightarrow> real" where
  "terrain_noise_height L self x z =
     (pnoise2 L (x * terrain_scale) (z * terrain_scale) 6 0.5 2 1024 1024 (seed self) + 1)
       * 0.5 * terrain_height"

definition terrain_height_of :: "'g pylib \<Rightarrow> world_generator \<Rightarrow> real \<Rightarrow> real \<Rightarrow> real" where
  "terrain_height_of L self x z =
     (let f = road_factor_of (roads self) x z
      in if f < 1 then terrain_noise_height L self x z * f + get_road_height L self x z * (1 - f)
         else terrain_noise_height L self x z)"

text \<open>
  A heightmap of \<open>res + 1\<close> rows of \<open>res + 1\<close> samples, and the normal that belongs to
  the two height differences \<open>dx\<close> (left minus right) and \<open>dz\<close> (up minus down).
\<close>

definition grid :: "real list list \<Rightarrow> int \<Rightarrow> bool" where
  "grid hm res = (int (length hm) = res + 1 \<and> list_all (\<lambda>row. int (length row) = res + 1) hm)"

definition normal_of :: "real \<Rightarrow> real \<Rightarrow> vec3" where
  "normal_of dx dz =
     \<lparr>vx = dx / sqrt (dx * dx + 4 + dz * dz),
      vy = 2 / sqrt (dx * dx + 4 + dz * dz),
      vz = dz / sqrt (dx * dx + 4 + dz * dz)\<rparr>"

definition clamped_normal :: "real list list \<Rightarrow> int \<Rightarrow> int \<Rightarrow> int \<Rightarrow> vec3" where
  "clamped_normal hm x z res =
     normal_of (hm ! nat z ! nat (max 0 (x - 1)) - hm ! nat z ! nat (min res (x + 1)))
               (hm ! nat (max 0 (z - 1)) ! nat x - hm ! nat (min res (z + 1)) ! nat x)"

definition unit_up :: "vec3 \<Rightarrow> bool" where
  "unit_up n = ((vx n)\<^sup>2 + (vy n)\<^sup>2 + (vz n)\<^sup>2 = 1 \<and> 0 < vy n)"

text \<open>
  Scenery: which kind an object is, and what its placement has to satisfy. A tree stands
  where the road factor is at least 0.9; a building where it lies between 0.5 and 0.9,
  turned by a whole number of quarter turns. \<open>randint_in_range\<close> is the contract of
  \<open>randint(a, b)\<close>: the value drawn lies between \<open>a\<close> and \<open>b\<close>.
\<close>

fun is_tree :: "scenery \<Rightarrow> bool" where
  "is_tree (Tree _ _ _ _) = True"
| "is_tree (Building _ _ _ _) = False"

fun is_building :: "scenery \<Rightarrow> bool" where
  "is_building (Tree _ _ _ _) = False"
| "is_building (Building _ _ _ _) = True"

definition road_factor_at :: "world_generator \<Rightarrow> vec3 \<Rightarrow> real \<Rightarrow> real \<Rightarrow> bool" where
  "road_factor_at self pos lo hi =
     (\<exists>f. get_road_factor self (vx pos) (vz pos) = Inr f \<and> lo \<le> f \<and> f \<le> hi)"

fun well_placed :: "world_generator \<Rightarrow> scenery \<Rightarrow> bool" where
  "well_placed self (Tree ty pos rot sc) = road_factor_at self pos 0.9 1"
| "well_placed self (Building ty pos rot sc) =
     (road_factor_at self pos 0.5 0.9 \<and> (\<exists>k::int. rot = 90 * real_of_int k))"

definition randint_in_range :: "'g pylib \<Rightarrow> bool" where
  "randint_in_range L =
     (\<forall>a b g. a \<le> b \<longrightarrow> a \<le> fst (rng_randint L a b g) \<and> fst (rng_randint L a b g) \<le> b)"

text \<open>
  The heightmap and the vertex list of a chunk as values, and the bound on the noise
  library that the height range rests on.
\<close>

definition heightmap_of ::
  "'g pylib \<Rightarrow> world_generator \<Rightarrow> int \<Rightarrow> int \<Rightarrow> nat \<Rightarrow> real list list" where
  "heightmap_of L self wx wz res =
     map (\<lambda>z. map (\<lambda>x. terrain_height_of L self
                      (real_of_int wx + (real x / real res) * real_of_int chunk_size)
                      (real_of_int wz + (real z / real res) * real_of_int chunk_size))
                 [0..<res + 1]) [0..<res + 1]"

definition vertices_of :: "real list list \<Rightarrow> int \<Rightarrow> int \<Rightarrow> nat \<Rightarrow> vertex list" where
  "vertices_of hm wx wz res =
     map (\<lambda>(z, x).
           \<lparr>v_position =
                 \<lparr>vx = real_of_int wx + (real x / real res) * real_of_int chunk_size,
                  vy = hm ! z ! x,
                  vz = real_of_int wz + (real z / real res) * real_of_int chunk_size\<rparr>,
               normal = clamped_normal hm (int x) (int z) (int res),
               uv = (real x / real res, real z / real res)\<rparr>)
          (List.product [0..<res + 1] [0..<res + 1])"

definition noise_in_range :: "'g pylib \<Rightarrow> bool" where
  "noise_in_range L =
     (\<forall>nx nz oct per lac rx ry b.
        - 1 \<le> pnoise2 L nx nz oct per lac rx ry b \<and> pnoise2 L nx nz oct per lac rx ry b \<le> 1)"

definition strictly_between :: "real \<Rightarrow> real \<Rightarrow> real \<Rightarrow> bool" where
  "strictly_between a b h = (min a b < h \<and> h < max a b)"

text \<open>The two counts \<open>generate_objects\<close> draws first, for the chunk's own generator.\<close>

definition num_trees_drawn :: "'g pylib \<Rightarrow> world_generator \<Rightarrow> int \<Rightarrow> int \<Rightarrow> int" where
  "num_trees_drawn L self cx cz =
     fst (rng_randint L 5 20 (Random L (seed self + py_hash L cx cz)))"

definition num_buildings_drawn :: "'g pylib \<Rightarrow> world_generator \<Rightarrow> int \<Rightarrow> int \<Rightarrow> int" where
  "num_buildings_drawn L self cx cz =
     fst (rng_randint L 0 2 (snd (rng_randint L 5 20 (Random L (seed self + py_hash L cx cz)))))"

text \<open>Reading a decimal numeral back, to show that the cache keys are distinct.\<close>

definition digit_val :: "char \<Rightarrow> nat" where
  "digit_val c = of_char c - 48"

definition nat_of_digits :: "string \<Rightarrow> nat" where
  "nat_of_digits cs = foldl (\<lambda>a c. 10 * a + digit_val c) 0 cs"

text \<open>
  The cache of a generator holds, under the key of a chunk, the chunk that
  \<open>generate_chunk\<close> computes for it, and nothing else.
\<close>

definition cache_coherent :: "'g pylib \<Rightarrow> world_generator \<Rightarrow> bool" where
  "cache_coherent L self =
     (\<forall>k c. chunks self k = Some c \<longrightarrow>
        (\<exists>cx cz. k = chunk_key cx cz \<and> generate_chunk L self cx cz = Inr c))"

text \<open>
  The Euclidean distance of two positions, the collision event of an ordered pair (the
  time, the two ids in that order, the midpoint of the two positions), and the collision
  events of one scan over a table: for every entry, in order, the events with every other
  entry that is closer than 2.
\<close>

definition distance3 :: "vec3 \<Rightarrow> vec3 \<Rightarrow> real" where
  "distance3 p1 p2 = sqrt ((vx p1 - vx p2)\<^sup>2 + (vy p1 - vy p2)\<^sup>2 + (vz p1 - vz p2)\<^sup>2)"

definition collision :: "real \<Rightarrow> string \<Rightarrow> string \<Rightarrow> vec3 \<Rightarrow> vec3 \<Rightarrow> collision_event" where
  "collision now player_id other_id p1 p2 =
     \<lparr>e_type = ''collision'', e_time = now, e_players = [player_id, other_id],
      e_position = \<lparr>vx = (vx p1 + vx p2) / 2, vy = (vy p1 + vy p2) / 2,
                     vz = (vz p1 + vz p2) / 2\<rparr>\<rparr>"

definition close_events ::
  "(addr \<Rightarrow> player) \<Rightarrow> real \<Rightarrow> string \<Rightarrow> addr \<Rightarrow> (string \<times> addr) list \<Rightarrow> collision_event list" where
  "close_events hp now player_id a table =
     concat (map (\<lambda>(other_id, b).
        if player_id \<noteq> other_id \<and> distance3 (position (hp a)) (position (hp b)) < 2
        then [collision now player_id other_id (position (hp a)) (position (hp b))]
        else []) table)"

definition close_pairs ::
  "(addr \<Rightarrow> player) \<Rightarrow> real \<Rightarrow> (string \<times> addr) list \<Rightarrow> collision_event list" where
  "close_pairs hp now table =
     concat (map (\<lambda>(player_id, a). close_events hp now player_id a table) table)"

definition stale :: "(addr \<Rightarrow> player) \<Rightarrow> real \<Rightarrow> string \<times> addr \<Rightarrow> bool" where
  "stale hp now entry = (last_update (hp (snd entry)) < now - playerTimeout)"

text \<open>
  The connection table as the gateway keeps it: one entry per player id, and no websocket
  shared by two entries. \<open>connected srv h\<close>: the handler's player is the one the table
  holds under its id, on the handler's websocket.
\<close>

definition table_ok :: "server \<Rightarrow> bool" where
  "table_ok srv =
     (distinct (map fst (connected_players srv))
      \<and> distinct (map (\<lambda>(k, a). websocket (heap srv a)) (connected_players srv)))"

definition connected :: "server \<Rightarrow> handler \<Rightarrow> bool" where
  "connected srv h =
     ((h_player_id h, h_player h) \<in> set (connected_players srv)
      \<and> websocket (heap srv (h_player h)) = h_websocket h)"

definition other_connections :: "server \<Rightarrow> handler \<Rightarrow> (string \<times> addr) list" where
  "other_connections srv h = filter (\<lambda>(k, a). k \<noteq> h_player_id h) (connected_players srv)"

section \<open>Values used in the examples\<close>

definition fresh_player :: player where
  "fresh_player =
     \<lparr>pid = ''player_1'', pname = ''Player 1'', vehicle_type = ''default'', websocket = 0,
      position = \<lparr>vx = 0, vy = 0, vz = 0\<rparr>, rotation = \<lparr>vx = 0, vy = 0, vz = 0\<rparr>,
      velocity = \<lparr>vx = 0, vy = 0, vz = 0\<rparr>, best_lap_time = None,
      current_lap_start = None, last_update = 0, checkpoints_passed = [],
      current_checkpoint = 0\<rparr>"

text \<open>
  A stand-in for the library: flat noise, and a generator whose every draw is the least
  value the call may return (\<open>random()\<close> gives 0.0, \<open>randint(a, b)\<close> gives \<open>a\<close>,
  \<open>choice\<close> the first element). \<open>world42\<close> is the generator built from seed 42 with
  it.
\<close>

definition flat_lib :: "unit pylib" where
  "flat_lib =
     \<lparr>pnoise2 = (\<lambda>nx nz oct per lac rx ry b. 0),
      py_hash = (\<lambda>a b. a * 1000003 + b),
      Random = (\<lambda>sd. ()),
      rng_random = (\<lambda>g. (0, g)),
      rng_randint = (\<lambda>a b g. (a, g)),
      rng_choice = (\<lambda>xs g. (hd xs, g))\<rparr>"

definition world42 :: world_generator where
  "world42 = WorldGenerator flat_lib 42"

definition one_road_world :: world_generator where
  "one_road_world =
     \<lparr>seed = 42, chunks = Map.empty, roads = [[\<lparr>px = 0, pz = 0\<rparr>, \<lparr>px = 10, pz = 0\<rparr>]]\<rparr>"

definition small_heightmap :: "real list list" where
  "small_heightmap = [[0, 2, 0], [1, 5, 0], [0, 0, 0]]"

text \<open>
  A second stand-in whose \<open>randint(a, b)\<close> gives \<open>b\<close>, and a world with a single road
  from (0, 10) to (10, 10), which passes the corner (0, 0) of chunk (0, 0) at distance 10.
\<close>

definition top_lib :: "unit pylib" where
  "top_lib = flat_lib\<lparr>rng_randint := (\<lambda>a b g. (b, g))\<rparr>"

definition side_road_world :: world_generator where
  "side_road_world =
     \<lparr>seed = 42, chunks = Map.empty, roads = [[\<lparr>px = 0, pz = 10\<rparr>, \<lparr>px = 10, pz = 10\<rparr>]]\<rparr>"

definition the_house :: scenery where
  "the_house = Building ''house'' \<lparr>vx = 0, vy = 110 / 3, vz = 0\<rparr> 270 1"

definition the_pine :: scenery where
  "the_pine = Tree ''pine'' \<lparr>vx = 500, vy = 50, vz = 0\<rparr> 0 0.8"

text \<open>Chunk (16, 10) of \<open>world42\<close>: its corner is the road vertex (8000, 5000).\<close>

definition chunk_16_10 :: chunk where
  "chunk_16_10 =
     \<lparr>c_position = (8000, 5000),
      c_size = 500,
      resolution = 16,
      heightmap = heightmap_of flat_lib world42 8000 5000 16,
      vertices = vertices_of (heightmap_of flat_lib world42 8000 5000 16) 8000 5000 16,
      indices = chunk_indices 16,
      c_roads = chunk_road_segments world42 8000 5000,
      objects = []\<rparr>"

text \<open>
  A session. The server starts at clock 0 with no player. Alice joins on websocket 1 at
  time 0 (draw 0: she spawns at angle 0), a second client joins on websocket 2 at time
  100 with an empty first message (draw 0.5) and becomes \<open>player_2\<close>.
\<close>

definition empty_server :: server where
  "empty_server =
     \<lparr>heap = (\<lambda>a. Player '''' '''' '''' 0 0), next_addr = 0,
      game_state = GameState flat_lib 0 0 42, connected_players = [], outbox = []\<rparr>"

definition alice_init :: init_json where
  "alice_init = \<lparr>playerId = Some ''alice'', playerName = Some ''Alice'',
                  vehicleType = Some ''sports''\<rparr>"

definition anon_init :: init_json where
  "anon_init = \<lparr>playerId = None, playerName = None, vehicleType = None\<rparr>"

definition alice :: handler where
  "alice = \<lparr>h_websocket = 1, h_player_id = ''alice'', h_player = 0\<rparr>"

definition player_2 :: handler where
  "player_2 = \<lparr>h_websocket = 2, h_player_id = ''player_2'', h_player = 1\<rparr>"

definition one_joined :: server where
  "one_joined = fst (connect empty_server 1 alice_init 0 0)"

definition two_joined :: server where
  "two_joined = fst (connect one_joined 2 anon_init 100 (1 / 2))"

text \<open>
  Then the clock ticks at time 10, Alice reports the position (0, 0, 0) and nothing else,
  and \<open>player_2\<close> reports the position (1, 0, 0) and a velocity.
\<close>

definition alice_moves :: message where
  "alice_moves = \<lparr>m_type = ''position'', m_position = Some \<lparr>vx = 0, vy = 0, vz = 0\<rparr>,
                   m_rotation = None, m_velocity = None, m_message = None,
                   m_timestamp = None\<rparr>"

definition player_2_moves :: message where
  "player_2_moves = \<lparr>m_type = ''position'', m_position = Some \<lparr>vx = 1, vy = 0, vz = 0\<rparr>,
                      m_rotation = None, m_velocity = Some \<lparr>vx = 3, vy = 0, vz = 0\<rparr>,
                      m_message = None, m_timestamp = None\<rparr>"

definition ticked :: server where
  "ticked = game_loop two_joined 10"

definition both_moved :: server where
  "both_moved = on_message (on_message ticked alice alice_moves) player_2 player_2_moves"

text \<open>
  Later \<open>player_2\<close> reports the position (0, 1.2, 1.6), at distance exactly 2 from
  Alice at the origin, with no difference in \<open>x\<close>.
\<close>

definition player_2_retreats :: message where
  "player_2_retreats = \<lparr>m_type = ''position'',
                         m_position = Some \<lparr>vx = 0, vy = 6 / 5, vz = 8 / 5\<rparr>,
                         m_rotation = None, m_velocity = None, m_message = None,
                         m_timestamp = None\<rparr>"

definition two_apart :: server where
  "two_apart = on_message both_moved player_2 player_2_retreats"

text \<open>
  Another course of the session after the second join: Alice's connection ends, and a
  third client joins on websocket 3 at time 200 with an empty first message (draw 0). The
  connection table then holds one entry, so the newcomer is given the id \<open>player_2\<close>
  too, while the handler of the first \<open>player_2\<close> is still in its message loop on
  websocket 2.
\<close>

definition alice_left :: server where
  "alice_left = on_disconnect two_joined alice"

definition newcomer_joined :: server where
  "newcomer_joined = fst (connect alice_left 3 anon_init 200 0)"

definition newcomer :: handler where
  "newcomer = snd (connect alice_left 3 anon_init 200 0)"

text \<open>A client whose first message carries the empty string as its player id.\<close>

definition nameless_init :: init_json where
  "nameless_init = \<lparr>playerId = Some '''', playerName = None, vehicleType = None\<rparr>"

definition nameless_joined :: server where
  "nameless_joined = fst (connect empty_server 1 nameless_init 0 0)"

definition nameless :: handler where
  "nameless = snd (connect empty_server 1 nameless_init 0 0)"

section \<open>Properties of player.py\<close>

lemma best_lap_time_step:
  "best_lap_time (update_lap_time p t) =
     (case current_lap_start p of None \<Rightarrow> best_lap_time p
      | Some s \<Rightarrow> (case best_lap_time p of None \<Rightarrow> Some (t - s)
                    | Some b \<Rightarrow> Some (min (t - s) b)))"
  by (auto simp: update_lap_time_def Let_def min_def split: option.splits)

lemma current_lap_start_step: "current_lap_start (update_lap_time p t) = Some t"
  by (auto simp: update_lap_time_def Let_def split: option.splits)

lemma Min_insert_min:
  fixes a b :: real
  assumes "finite S"
  shows "Min (insert (min a b) S) = Min (insert a (insert b S))"
proof (cases "S = {}")
  case True
  then show ?thesis by (simp add: min.commute)
next
  case False
  with assms show ?thesis by (simp add: min.assoc)
qed

lemma best_candidates_empty_step:
  "(best_candidates (update_lap_time p t) ts = {}) = (best_candidates p (t # ts) = {})"
  by (cases "current_lap_start p"; cases "best_lap_time p")
     (auto simp: best_candidates_def recorded_laps_def best_lap_time_step
                 current_lap_start_step)

lemma best_candidates_Min_step:
  "Min (best_candidates (update_lap_time p t) ts) = Min (best_candidates p (t # ts))"
proof (cases "current_lap_start p")
  case None
  then show ?thesis
    by (simp add: best_candidates_def recorded_laps_def best_lap_time_step
                  current_lap_start_step)
next
  case (Some s)
  show ?thesis
  proof (cases "best_lap_time p")
    case None
    with Some show ?thesis
      by (simp add: best_candidates_def recorded_laps_def best_lap_time_step
                    current_lap_start_step)
  next
    case (Some b)
    have "Min (insert (min (t - s) b) (set (lap_durations t ts)))
            = Min (insert (t - s) (insert b (set (lap_durations t ts))))"
      by (rule Min_insert_min) simp
    with Some \<open>current_lap_start p = Some s\<close> show ?thesis
      by (simp add: best_candidates_def recorded_laps_def best_lap_time_step
                    current_lap_start_step insert_commute)
  qed
qed

lemma best_lap_time_foldl:
  "best_lap_time (foldl update_lap_time p ts) =
     (if best_candidates p ts = {} then None else Some (Min (best_candidates p ts)))"
proof (induction ts arbitrary: p)
  case Nil
  then show ?case
    by (cases "current_lap_start p"; cases "best_lap_time p")
       (simp_all add: best_candidates_def recorded_laps_def)
next
  case (Cons t ts)
  then show ?case
    by (simp add: best_candidates_empty_step best_candidates_Min_step)
qed

text \<open>
  Claim C10. For every player \<open>p\<close>, every timestamp \<open>t\<close> and every sequence \<open>ts\<close> of
  timestamps passed to \<open>update_lap_time\<close> one after the other: a best lap time that is
  set stays set; one call either leaves it as it was or replaces it by the duration of
  the lap just completed, which is then strictly smaller than the old value; it never
  grows; and after the whole sequence it is the minimum of the best time the player
  started with and the durations of the laps completed by the calls (no value when there
  is neither). None of this needs the timestamps to be ordered, so it holds in
  particular for non-decreasing ones.
\<close>

theorem best_lap_time_never_increases:
  "(best_lap_time p \<noteq> None \<longrightarrow> best_lap_time (update_lap_time p t) \<noteq> None)
   \<and> (best_lap_time (update_lap_time p t) = best_lap_time p
      \<or> (\<exists>s. current_lap_start p = Some s
             \<and> best_lap_time (update_lap_time p t) = Some (t - s)
             \<and> (\<forall>b. best_lap_time p = Some b \<longrightarrow> t - s < b)))
   \<and> (\<forall>b b'. best_lap_time p = Some b \<and> best_lap_time (update_lap_time p t) = Some b'
          \<longrightarrow> b' \<le> b)
   \<and> best_lap_time (foldl update_lap_time p ts) =
       (if best_candidates p ts = {} then None else Some (Min (best_candidates p ts)))"
proof (intro conjI)
  show "best_lap_time p \<noteq> None \<longrightarrow> best_lap_time (update_lap_time p t) \<noteq> None"
    by (auto simp: best_lap_time_step split: option.splits)
  show "best_lap_time (update_lap_time p t) = best_lap_time p
      \<or> (\<exists>s. current_lap_start p = Some s
             \<and> best_lap_time (update_lap_time p t) = Some (t - s)
             \<and> (\<forall>b. best_lap_time p = Some b \<longrightarrow> t - s < b))"
    by (cases "current_lap_start p"; cases "best_lap_time p")
       (auto simp: best_lap_time_step min_def)
  show "\<forall>b b'. best_lap_time p = Some b \<and> best_lap_time (update_lap_time p t) = Some b'
          \<longrightarrow> b' \<le> b"
    by (auto simp: best_lap_time_step split: option.splits)
  show "best_lap_time (foldl update_lap_time p ts) =
       (if best_candidates p ts = {} then None else Some (Min (best_candidates p ts)))"
    by (rule best_lap_time_foldl)
qed

text \<open>
  A new player crosses the line at times 10, 70, 125 and 190: the laps take 60, 55 and
  65, and the best lap time is 55. Crossing once more at 240 lowers it to 50.
\<close>

theorem best_lap_time_never_increases_witness:
  "best_lap_time (foldl update_lap_time fresh_player [10, 70, 125, 190]) = Some 55
   \<and> best_lap_time (foldl update_lap_time fresh_player [10, 70, 125, 190, 240]) = Some 50"
proof -
  have "best_lap_time (foldl update_lap_time fresh_player [10, 70, 125, 190]) = Some 55"
    using best_lap_time_never_increases [of fresh_player 10 "[10, 70, 125, 190]"]
    by (simp add: fresh_player_def best_candidates_def recorded_laps_def)
  moreover
  have "best_lap_time (foldl update_lap_time fresh_player [10, 70, 125, 190, 240]) = Some 50"
    using best_lap_time_never_increases [of fresh_player 10 "[10, 70, 125, 190, 240]"]
    by (simp add: fresh_player_def best_candidates_def recorded_laps_def)
  ultimately show ?thesis by simp
qed

section \<open>Properties of world_generator.py\<close>

subsection \<open>Exceptions that cannot arise\<close>

lemma py_sqrt_nonneg: "0 \<le> v \<Longrightarrow> py_sqrt v = Inr (sqrt v)"
  by (simp add: py_sqrt_def)

lemma py_div_nonzero: "b \<noteq> 0 \<Longrightarrow> py_div a b = Inr (a / b)"
  by (simp add: py_div_def)

lemma bindE_Inr [simp]: "bindE (Inr v) f = f v"
  by (simp add: bindE_def)

lemma bindE_Inl [simp]: "bindE (Inl e) f = Inl e"
  by (simp add: bindE_def)

lemma point_to_line_distance_Inr:
  "point_to_line_distance x z x1 z1 x2 z2 = Inr (segment_distance x z x1 z1 x2 z2)"
  by (simp add: point_to_line_distance_def segment_distance_def Let_def py_sqrt_nonneg
      py_div_nonzero)

lemma segment_distance_nonneg: "0 \<le> segment_distance x z x1 z1 x2 z2"
  by (simp add: segment_distance_def Let_def)

text \<open>
  Claim C9. For all real arguments \<open>point_to_line_distance\<close> returns a value and raises
  nothing, neither from the division nor from a square root; the value is not negative;
  when the two endpoints coincide it is the distance from the query point to that point;
  and the squared length that guards the division is zero exactly when the endpoints
  coincide.
\<close>

theorem point_to_line_distance_total:
  "\<exists>d. point_to_line_distance x z x1 z1 x2 z2 = Inr d \<and> 0 \<le> d
       \<and> (x1 = x2 \<and> z1 = z2 \<longrightarrow> d = sqrt ((x - x1)\<^sup>2 + (z - z1)\<^sup>2))
       \<and> (((x2 - x1) * (x2 - x1) + (z2 - z1) * (z2 - z1) = 0) = (x1 = x2 \<and> z1 = z2))"
proof (rule exI [of _ "segment_distance x z x1 z1 x2 z2"], intro conjI)
  show "point_to_line_distance x z x1 z1 x2 z2 = Inr (segment_distance x z x1 z1 x2 z2)"
    by (rule point_to_line_distance_Inr)
  show "0 \<le> segment_distance x z x1 z1 x2 z2"
    by (rule segment_distance_nonneg)
  show "x1 = x2 \<and> z1 = z2 \<longrightarrow>
          segment_distance x z x1 z1 x2 z2 = sqrt ((x - x1)\<^sup>2 + (z - z1)\<^sup>2)"
    by (simp add: segment_distance_def power2_eq_square Let_def)
  show "((x2 - x1) * (x2 - x1) + (z2 - z1) * (z2 - z1) = 0) = (x1 = x2 \<and> z1 = z2)"
    by (auto simp: sum_squares_eq_zero_iff)
qed

text \<open>
  The point (3, 4) and the degenerate segment from (0, 0) to (0, 0): the distance is 5.
\<close>

theorem point_to_line_distance_total_witness:
  "point_to_line_distance 3 4 0 0 0 0 = Inr 5"
  using point_to_line_distance_total [of 3 4 0 0 0 0]
  by (auto simp: real_sqrt_unique)

subsection \<open>The road factor and the terrain height as values\<close>

lemma min_opt_Nil: "min_opt m [] = m"
  by (simp add: min_opt_def split: option.splits)

lemma min_opt_Cons:
  "min_opt m (d # ds) = min_opt (Some (case m of None \<Rightarrow> d | Some v \<Rightarrow> min v d)) ds"
proof (cases m)
  case None
  then show ?thesis by (simp add: min_opt_def)
next
  case (Some v)
  have "Min (insert v (insert d (set ds))) = Min (insert (min v d) (set ds))"
    by (cases "set ds = {}") (simp_all add: min.assoc)
  with Some show ?thesis by (simp add: min_opt_def)
qed

lemma min_opt_append: "min_opt m (ds @ es) = min_opt (min_opt m ds) es"
  by (induction ds arbitrary: m) (simp_all add: min_opt_Nil min_opt_Cons)

lemma min_distance_segments_Inr:
  "min_distance_segments segs x z m =
     Inr (min_opt m (map (\<lambda>(p1, p2). segment_distance x z (px p1) (pz p1) (px p2) (pz p2)) segs))"
  by (induction segs arbitrary: m)
     (auto simp: min_opt_Nil min_opt_Cons point_to_line_distance_Inr)

lemma min_distance_roads_Inr:
  "min_distance_roads rds x z m = Inr (min_opt m (segment_distances rds x z))"
proof (induction rds arbitrary: m)
  case Nil
  then show ?case by (simp add: segment_distances_def min_opt_Nil)
next
  case (Cons road rest)
  have "segment_distances (road # rest) x z =
          map (\<lambda>(p1, p2). segment_distance x z (px p1) (pz p1) (px p2) (pz p2)) (road_segments road)
          @ segment_distances rest x z"
    by (simp add: segment_distances_def)
  then show ?case
    by (simp add: Cons.IH min_distance_segments_Inr min_opt_append)
qed

lemma get_road_factor_Inr: "get_road_factor self x z = Inr (road_factor_of (roads self) x z)"
proof -
  have "min_opt None (segment_distances (roads self) x z) = nearest_road_distance (roads self) x z"
    by (simp add: min_opt_def nearest_road_distance_def)
  then show ?thesis
    by (auto simp: get_road_factor_def min_distance_roads_Inr road_factor_of_def road_width_def
        py_div_def split: option.splits)
qed

lemma nearest_road_distance_nonneg:
  assumes "nearest_road_distance rds x z = Some d"
  shows "0 \<le> d"
proof -
  from assms have "segment_distances rds x z \<noteq> []"
    and "d = Min (set (segment_distances rds x z))"
    by (auto simp: nearest_road_distance_def split: if_splits)
  then have "d \<in> set (segment_distances rds x z)"
    using Min_in [of "set (segment_distances rds x z)"] by simp
  then show ?thesis
    by (auto simp: segment_distances_def segment_distance_nonneg)
qed

lemma road_factor_of_range: "0 \<le> road_factor_of rds x z \<and> road_factor_of rds x z \<le> 1"
  by (auto simp: road_factor_of_def road_width_def dest: nearest_road_distance_nonneg
      split: option.splits)

lemma get_terrain_height_Inr:
  "get_terrain_height L self x z = Inr (terrain_height_of L self x z)"
  by (simp add: get_terrain_height_def get_road_factor_Inr terrain_height_of_def
      terrain_noise_height_def Let_def)

subsection \<open>Heightmap, normals and vertices of a chunk\<close>

lemma mapE_Inr:
  assumes "\<And>x. x \<in> set xs \<Longrightarrow> f x = Inr (g x)"
  shows "mapE f xs = Inr (map g xs)"
  using assms by (induction xs) simp_all

lemma chunk_heightmap_Inr:
  "chunk_heightmap L self wx wz res =
     Inr (map (\<lambda>z. map (\<lambda>x. terrain_height_of L self
                      (real_of_int wx + (real x / real res) * real_of_int chunk_size)
                      (real_of_int wz + (real z / real res) * real_of_int chunk_size))
                 [0..<res + 1]) [0..<res + 1])"
  unfolding chunk_heightmap_def Let_def
  by (intro mapE_Inr) (simp add: get_terrain_height_Inr)

lemma grid_chunk_heightmap:
  "chunk_heightmap L self wx wz res = Inr hm \<Longrightarrow> grid hm (int res)"
  by (auto simp: chunk_heightmap_Inr grid_def list_all_iff)

lemma py_index_in_range: "0 \<le> i \<Longrightarrow> i < int (length xs) \<Longrightarrow> py_index xs i = Inr (xs ! nat i)"
  by (simp add: py_index_def)

lemma grid_lookup:
  assumes "grid hm res" "0 \<le> i" "i \<le> res" "0 \<le> j" "j \<le> res"
  shows "bindE (py_index hm i) (\<lambda>row. py_index row j) = Inr (hm ! nat i ! nat j)"
proof -
  from assms have i: "i < int (length hm)" by (simp add: grid_def)
  then have "nat i < length hm" using assms(2) by linarith
  then have "hm ! nat i \<in> set hm" by simp
  with assms(1) have "int (length (hm ! nat i)) = res + 1"
    by (simp add: grid_def list_all_iff)
  with assms have j: "j < int (length (hm ! nat i))" by simp
  show ?thesis using i j assms by (simp add: py_index_in_range)
qed

lemma sqrt_len_pos: "0 < sqrt (dx * dx + 4 + dz * dz)"
proof -
  have "0 < dx * dx + 4 + dz * dz"
    by (smt (verit) zero_le_square)
  then show ?thesis by simp
qed

lemma normal_of_unit_up: "unit_up (normal_of dx dz)"
proof -
  let ?s = "dx * dx + 4 + dz * dz"
  have pos: "0 < ?s" by (smt (verit) zero_le_square)
  have sq: "(sqrt ?s)\<^sup>2 = ?s" using pos by simp
  have "(vx (normal_of dx dz))\<^sup>2 + (vy (normal_of dx dz))\<^sup>2 + (vz (normal_of dx dz))\<^sup>2
        = (dx\<^sup>2 + 4 + dz\<^sup>2) / (sqrt ?s)\<^sup>2"
    by (simp add: normal_of_def power_divide add_divide_distrib)
  also have "\<dots> = ?s / ?s" by (simp only: sq) (simp add: power2_eq_square)
  also have "\<dots> = 1" using pos by simp
  finally have "(vx (normal_of dx dz))\<^sup>2 + (vy (normal_of dx dz))\<^sup>2 + (vz (normal_of dx dz))\<^sup>2 = 1" .
  moreover have "0 < vy (normal_of dx dz)"
    using sqrt_len_pos [of dx dz] by (simp add: normal_of_def)
  ultimately show ?thesis by (simp add: unit_up_def)
qed

lemma calculate_normal_Inr:
  assumes "grid hm res" "0 \<le> x" "x \<le> res" "0 \<le> z" "z \<le> res"
  shows "calculate_normal hm x z res = Inr (clamped_normal hm x z res)"
proof -
  have xp: "(if x = 0 then x else x - 1) = max 0 (x - 1)" using assms by (simp add: max_def)
  have xn: "(if x = res then x else x + 1) = min res (x + 1)" using assms by (simp add: min_def)
  have zp: "(if z = 0 then z else z - 1) = max 0 (z - 1)" using assms by (simp add: max_def)
  have zn: "(if z = res then z else z + 1) = min res (z + 1)" using assms by (simp add: min_def)
  have 1: "bindE (py_index hm (max 0 (z - 1))) (\<lambda>row. py_index row x) = Inr (hm ! nat (max 0 (z - 1)) ! nat x)"
    using assms by (intro grid_lookup) auto
  have 2: "bindE (py_index hm (min res (z + 1))) (\<lambda>row. py_index row x) = Inr (hm ! nat (min res (z + 1)) ! nat x)"
    using assms by (intro grid_lookup) auto
  have 3: "bindE (py_index hm z) (\<lambda>row. py_index row (max 0 (x - 1))) = Inr (hm ! nat z ! nat (max 0 (x - 1)))"
    using assms by (intro grid_lookup) auto
  have 4: "bindE (py_index hm z) (\<lambda>row. py_index row (min res (x + 1))) = Inr (hm ! nat z ! nat (min res (x + 1)))"
    using assms by (intro grid_lookup) auto
  have s: "\<And>a b::real. py_sqrt (a * a + 4 + b * b) = Inr (sqrt (a * a + 4 + b * b))"
    by (rule py_sqrt_nonneg) (smt (verit) zero_le_square)
  have d: "\<And>a b c::real. py_div c (sqrt (a * a + 4 + b * b)) = Inr (c / sqrt (a * a + 4 + b * b))"
    by (rule py_div_nonzero) (use sqrt_len_pos in \<open>smt (verit)\<close>)
  show ?thesis
    unfolding calculate_normal_def xp xn zp zn Let_def 1 2 3 4 bindE_Inr s d normal_of_def
      clamped_normal_def
    by (rule refl)
qed

lemma chunk_vertices_Inr:
  assumes "grid hm (int res)"
  shows "chunk_vertices hm wx wz res =
     Inr (map (\<lambda>(z, x).
           \<lparr>v_position =
                 \<lparr>vx = real_of_int wx + (real x / real res) * real_of_int chunk_size,
                  vy = hm ! z ! x,
                  vz = real_of_int wz + (real z / real res) * real_of_int chunk_size\<rparr>,
               normal = clamped_normal hm (int x) (int z) (int res),
               uv = (real x / real res, real z / real res)\<rparr>)
          (List.product [0..<res + 1] [0..<res + 1]))"
  unfolding chunk_vertices_def
proof (rule mapE_Inr)
  fix p :: "nat \<times> nat"
  assume p: "p \<in> set (List.product [0..<res + 1] [0..<res + 1])"
  obtain z x where zx: "p = (z, x)" by (cases p)
  with p have r: "z \<le> res" "x \<le> res" by auto
  have a: "bindE (py_index hm (int z)) (\<lambda>row. py_index row (int x)) = Inr (hm ! z ! x)"
    using grid_lookup [OF assms, of "int z" "int x"] r by simp
  have b: "calculate_normal hm (int x) (int z) (int res) = Inr (clamped_normal hm (int x) (int z) (int res))"
    using r by (intro calculate_normal_Inr assms) auto
  show "(case p of (z, x) \<Rightarrow>
          bindE (bindE (py_index hm (int z)) (\<lambda>row. py_index row (int x))) (\<lambda>h.
          bindE (calculate_normal hm (int x) (int z) (int res)) (\<lambda>n.
          Inr \<lparr>v_position =
                 \<lparr>vx = real_of_int wx + (real x / real res) * real_of_int chunk_size,
                  vy = h,
                  vz = real_of_int wz + (real z / real res) * real_of_int chunk_size\<rparr>,
               normal = n,
               uv = (real x / real res, real z / real res)\<rparr>)))
        = Inr (case p of (z, x) \<Rightarrow>
           \<lparr>v_position =
                 \<lparr>vx = real_of_int wx + (real x / real res) * real_of_int chunk_size,
                  vy = hm ! z ! x,
                  vz = real_of_int wz + (real z / real res) * real_of_int chunk_size\<rparr>,
               normal = clamped_normal hm (int x) (int z) (int res),
               uv = (real x / real res, real z / real res)\<rparr>)"
    by (simp add: zx a b)
qed

subsection \<open>Scenery placement\<close>

lemma place_trees_Inr:
  "\<exists>new rng'. place_trees L self wx wz n rng objs = Inr (objs @ new, rng')
       \<and> length new \<le> n \<and> list_all is_tree new \<and> list_all (well_placed self) new"
proof (induction n arbitrary: rng objs)
  case 0
  then show ?case by simp
next
  case (Suc n)
  obtain r1 rng1 where d1: "rng_random L rng = (r1, rng1)" by (cases "rng_random L rng")
  obtain r2 rng2 where d2: "rng_random L rng1 = (r2, rng2)" by (cases "rng_random L rng1")
  let ?x = "real_of_int wx + r1 * real_of_int chunk_size"
  let ?z = "real_of_int wz + r2 * real_of_int chunk_size"
  let ?f = "road_factor_of (roads self) ?x ?z"
  show ?case
  proof (cases "?f < 0.9")
    case True
    from Suc.IH [of rng2 objs] obtain new rng' where
      "place_trees L self wx wz n rng2 objs = Inr (objs @ new, rng')"
      "length new \<le> n" "list_all is_tree new" "list_all (well_placed self) new" by blast
    with True show ?thesis
      by (simp add: d1 d2 get_road_factor_Inr)
  next
    case False
    obtain ty rng3 where d3: "rng_choice L [''pine'', ''oak'', ''palm''] rng2 = (ty, rng3)"
      by (cases "rng_choice L [''pine'', ''oak'', ''palm''] rng2")
    obtain r3 rng4 where d4: "rng_random L rng3 = (r3, rng4)" by (cases "rng_random L rng3")
    obtain r4 rng5 where d5: "rng_random L rng4 = (r4, rng5)" by (cases "rng_random L rng4")
    let ?t = "Tree ty \<lparr>vx = ?x, vy = terrain_height_of L self ?x ?z, vz = ?z\<rparr>
                (r4 * 360) (0.8 + r3 * 0.4)"
    from Suc.IH [of rng5 "objs @ [?t]"] obtain new rng' where
      n: "place_trees L self wx wz n rng5 (objs @ [?t]) = Inr ((objs @ [?t]) @ new, rng')"
      "length new \<le> n" "list_all is_tree new" "list_all (well_placed self) new" by blast
    have w: "well_placed self ?t"
      using False road_factor_of_range [of "roads self" ?x ?z]
      by (simp add: road_factor_at_def get_road_factor_Inr)
    have "place_trees L self wx wz (Suc n) rng objs = Inr (objs @ (?t # new), rng')"
      using False n(1) by (simp add: d1 d2 d3 d4 d5 get_road_factor_Inr get_terrain_height_Inr Let_def)
    with n w show ?thesis
      by (intro exI [of _ "?t # new"] exI [of _ rng']) simp
  qed
qed

lemma place_buildings_Inr:
  "\<exists>new rng'. place_buildings L self wx wz n rng objs = Inr (objs @ new, rng')
       \<and> length new \<le> n \<and> list_all is_building new \<and> list_all (well_placed self) new"
proof (induction n arbitrary: rng objs)
  case 0
  then show ?case by simp
next
  case (Suc n)
  obtain r1 rng1 where d1: "rng_random L rng = (r1, rng1)" by (cases "rng_random L rng")
  obtain r2 rng2 where d2: "rng_random L rng1 = (r2, rng2)" by (cases "rng_random L rng1")
  let ?x = "real_of_int wx + r1 * real_of_int chunk_size"
  let ?z = "real_of_int wz + r2 * real_of_int chunk_size"
  let ?f = "road_factor_of (roads self) ?x ?z"
  show ?case
  proof (cases "?f < 0.5 \<or> ?f > 0.9")
    case True
    from Suc.IH [of rng2 objs] obtain new rng' where
      "place_buildings L self wx wz n rng2 objs = Inr (objs @ new, rng')"
      "length new \<le> n" "list_all is_building new" "list_all (well_placed self) new" by blast
    with True show ?thesis
      by (simp add: d1 d2 get_road_factor_Inr)
  next
    case False
    obtain ty rng3 where d3: "rng_choice L [''house'', ''shop'', ''garage''] rng2 = (ty, rng3)"
      by (cases "rng_choice L [''house'', ''shop'', ''garage''] rng2")
    obtain r3 rng4 where d4: "rng_random L rng3 = (r3, rng4)" by (cases "rng_random L rng3")
    obtain k rng5 where d5: "rng_randint L 0 3 rng4 = (k, rng5)" by (cases "rng_randint L 0 3 rng4")
    let ?t = "Building ty \<lparr>vx = ?x, vy = terrain_height_of L self ?x ?z, vz = ?z\<rparr>
                (real_of_int (k * 90)) (1.0 + r3 * 0.5)"
    from Suc.IH [of rng5 "objs @ [?t]"] obtain new rng' where
      n: "place_buildings L self wx wz n rng5 (objs @ [?t]) = Inr ((objs @ [?t]) @ new, rng')"
      "length new \<le> n" "list_all is_building new" "list_all (well_placed self) new" by blast
    have w: "well_placed self ?t"
      using False by (auto simp: road_factor_at_def get_road_factor_Inr)
    have "place_buildings L self wx wz (Suc n) rng objs = Inr (objs @ (?t # new), rng')"
      using False n(1) by (simp add: d1 d2 d3 d4 d5 get_road_factor_Inr get_terrain_height_Inr Let_def)
    with n w show ?thesis
      by (intro exI [of _ "?t # new"] exI [of _ rng']) simp
  qed
qed

lemma filter_none: "list_all P xs \<Longrightarrow> (\<And>x. P x \<Longrightarrow> \<not> Q x) \<Longrightarrow> filter Q xs = []"
  by (induction xs) auto

lemma filter_all: "list_all P xs \<Longrightarrow> (\<And>x. P x \<Longrightarrow> Q x) \<Longrightarrow> filter Q xs = xs"
  by (induction xs) auto

lemma is_tree_not_building: "is_tree s \<Longrightarrow> \<not> is_building s"
  by (cases s) auto

lemma is_building_not_tree: "is_building s \<Longrightarrow> \<not> is_tree s"
  by (cases s) auto

lemma generate_objects_Inr:
  "\<exists>trees buildings.
      generate_objects L self cx cz hm = Inr (trees @ buildings)
    \<and> list_all is_tree trees \<and> list_all is_building buildings
    \<and> length trees \<le> nat (fst (rng_randint L 5 20 (Random L (seed self + py_hash L cx cz))))
    \<and> length buildings \<le> nat (fst (rng_randint L 0 2
                 (snd (rng_randint L 5 20 (Random L (seed self + py_hash L cx cz))))))
    \<and> list_all (well_placed self) (trees @ buildings)"
proof -
  let ?rng = "Random L (seed self + py_hash L cx cz)"
  obtain nt rng1 where d1: "rng_randint L 5 20 ?rng = (nt, rng1)" by (cases "rng_randint L 5 20 ?rng")
  obtain nb rng2 where d2: "rng_randint L 0 2 rng1 = (nb, rng2)" by (cases "rng_randint L 0 2 rng1")
  from place_trees_Inr [of L self "cx * chunk_size" "cz * chunk_size" "nat nt" rng2 "[]"]
  obtain trees rng3 where
    t: "place_trees L self (cx * chunk_size) (cz * chunk_size) (nat nt) rng2 [] = Inr (trees, rng3)"
       "length trees \<le> nat nt" "list_all is_tree trees" "list_all (well_placed self) trees"
    by auto
  from place_buildings_Inr [of L self "cx * chunk_size" "cz * chunk_size" "nat nb" rng3 trees]
  obtain buildings rng4 where
    b: "place_buildings L self (cx * chunk_size) (cz * chunk_size) (nat nb) rng3 trees
          = Inr (trees @ buildings, rng4)"
       "length buildings \<le> nat nb" "list_all is_building buildings"
       "list_all (well_placed self) buildings"
    by auto
  have "generate_objects L self cx cz hm = Inr (trees @ buildings)"
    by (simp add: generate_objects_def Let_def d1 d2 t(1) b(1))
  with t b show ?thesis
    by (intro exI [of _ trees] exI [of _ buildings]) (simp add: d1 d2)
qed

subsection \<open>The first vertex of the circular road\<close>

lemma circle_points_append:
  "\<exists>pts. fst (circle_points L is rng road) = road @ pts \<and> length pts = length is"
proof (induction "is" arbitrary: rng road)
  case Nil
  then show ?case by simp
next
  case (Cons i rest)
  show ?case
  proof (cases "i > 0 \<and> i < 36")
    case True
    obtain r1 rng1 where d1: "rng_random L rng = (r1, rng1)" by (cases "rng_random L rng")
    obtain r2 rng2 where d2: "rng_random L rng1 = (r2, rng2)" by (cases "rng_random L rng1")
    let ?p = "\<lparr>px = world_size * 0.5 + cos ((real i / 36) * 2 * pi) * (world_size * 0.3)
                      + (r1 - 0.5) * (world_size * 0.3) * 0.2,
                pz = world_size * 0.5 + sin ((real i / 36) * 2 * pi) * (world_size * 0.3)
                      + (r2 - 0.5) * (world_size * 0.3) * 0.2\<rparr>"
    from Cons.IH [of rng2 "road @ [?p]"] obtain pts where
      "fst (circle_points L rest rng2 (road @ [?p])) = (road @ [?p]) @ pts" "length pts = length rest"
      by blast
    with True show ?thesis
      by (intro exI [of _ "?p # pts"]) (simp add: d1 d2 Let_def)
  next
    case False
    let ?p = "\<lparr>px = world_size * 0.5 + cos ((real i / 36) * 2 * pi) * (world_size * 0.3),
                pz = world_size * 0.5 + sin ((real i / 36) * 2 * pi) * (world_size * 0.3)\<rparr>"
    from Cons.IH [of rng "road @ [?p]"] obtain pts where
      "fst (circle_points L rest rng (road @ [?p])) = (road @ [?p]) @ pts" "length pts = length rest"
      by blast
    with False show ?thesis
      by (intro exI [of _ "?p # pts"]) (auto simp: Let_def)
  qed
qed

lemma radial_roads_append: "\<exists>others. fst (radial_roads L n is rng rds) = rds @ others"
proof (induction "is" arbitrary: rng rds)
  case Nil
  then show ?case by simp
next
  case (Cons i rest)
  define end_x where
    "end_x = world_size * 0.5 + cos ((real i / real_of_int n) * 2 * pi) * world_size * 0.5"
  define end_z where
    "end_z = world_size * 0.5 + sin ((real i / real_of_int n) * 2 * pi) * world_size * 0.5"
  obtain np rng1 where d1: "rng_randint L 3 6 rng = (np, rng1)"
    by (cases "rng_randint L 3 6 rng")
  obtain road rng2 where d2:
    "radial_points L end_x end_z np [1..<nat np] rng1
       [\<lparr>px = world_size * 0.5, pz = world_size * 0.5\<rparr>] = (road, rng2)"
    by (cases "radial_points L end_x end_z np [1..<nat np] rng1
       [\<lparr>px = world_size * 0.5, pz = world_size * 0.5\<rparr>]")
  have step: "radial_roads L n (i # rest) rng rds =
               radial_roads L n rest rng2 (rds @ [road @ [\<lparr>px = end_x, pz = end_z\<rparr>]])"
    unfolding radial_roads.simps Let_def d1 prod.case end_x_def [symmetric] end_z_def [symmetric] d2
    by (rule refl)
  from Cons.IH [of rng2 "rds @ [road @ [\<lparr>px = end_x, pz = end_z\<rparr>]]"] obtain others where
    "fst (radial_roads L n rest rng2 (rds @ [road @ [\<lparr>px = end_x, pz = end_z\<rparr>]]))
       = (rds @ [road @ [\<lparr>px = end_x, pz = end_z\<rparr>]]) @ others" by blast
  with step show ?case by simp
qed

lemma random_roads_append: "\<exists>others. fst (random_roads L n rng rds) = rds @ others"
proof (induction n arbitrary: rng rds)
  case 0
  then show ?case by simp
next
  case (Suc n)
  obtain r1 rng1 where d1: "rng_random L rng = (r1, rng1)" by (cases "rng_random L rng")
  obtain r2 rng2 where d2: "rng_random L rng1 = (r2, rng2)" by (cases "rng_random L rng1")
  obtain len rng3 where d3: "rng_randint L 3 8 rng2 = (len, rng3)"
    by (cases "rng_randint L 3 8 rng2")
  obtain r3 rng4 where d4: "rng_random L rng3 = (r3, rng4)" by (cases "rng_random L rng3")
  obtain road rng5 where d5:
    "random_points L (nat len - 1) (r3 * 2 * pi) rng4
       [\<lparr>px = r1 * world_size, pz = r2 * world_size\<rparr>] = (road, rng5)"
    by (cases "random_points L (nat len - 1) (r3 * 2 * pi) rng4
       [\<lparr>px = r1 * world_size, pz = r2 * world_size\<rparr>]")
  have step: "random_roads L (Suc n) rng rds = random_roads L n rng5 (rds @ [road])"
    unfolding random_roads.simps Let_def d1 prod.case d2 d3 d4 d5
    by (rule refl)
  from Suc.IH [of rng5 "rds @ [road]"] obtain others where
    "fst (random_roads L n rng5 (rds @ [road])) = (rds @ [road]) @ others" by blast
  with step show ?case by simp
qed

lemma circle_points_first:
  "circle_points L (0 # rest) rng [] = circle_points L rest rng [\<lparr>px = 8000, pz = 5000\<rparr>]"
  by (simp add: Let_def world_size_def)

lemma circle_road_start:
  "\<exists>p rest. fst (circle_points L [0..<37] rng []) = \<lparr>px = 8000, pz = 5000\<rparr> # p # rest"
proof -
  define tl37 where "tl37 = [Suc 0..<37]"
  have u: "[0..<37] = 0 # tl37" unfolding tl37_def by (rule upt_conv_Cons) simp
  have len: "length tl37 = 36" unfolding tl37_def by simp
  let ?p0 = "\<lparr>px = 8000, pz = 5000 :: real\<rparr>"
  from circle_points_append [of L tl37 rng "[?p0]"] obtain pts where
    p: "fst (circle_points L tl37 rng [?p0]) = [?p0] @ pts" "length pts = length tl37"
    by blast
  with len have "pts \<noteq> []" by auto
  then obtain p rest where "pts = p # rest" by (cases pts) auto
  with p show ?thesis by (simp only: u circle_points_first) simp
qed

lemma generate_road_network_start:
  "\<exists>p rest others. generate_road_network L sd = (\<lparr>px = 8000, pz = 5000\<rparr> # p # rest) # others"
proof -
  let ?rng = "Random L sd"
  obtain circle rng1 where c: "circle_points L [0..<37] ?rng [] = (circle, rng1)"
    by (cases "circle_points L [0..<37] ?rng []")
  obtain nr rng2 where d2: "rng_randint L 4 8 rng1 = (nr, rng2)" by (cases "rng_randint L 4 8 rng1")
  obtain rds rng3 where r: "radial_roads L nr [0..<nat nr] rng2 [circle] = (rds, rng3)"
    by (cases "radial_roads L nr [0..<nat nr] rng2 [circle]")
  obtain nn rng4 where d4: "rng_randint L 5 10 rng3 = (nn, rng4)" by (cases "rng_randint L 5 10 rng3")
  obtain rds' rng5 where r': "random_roads L (nat nn) rng4 rds = (rds', rng5)"
    by (cases "random_roads L (nat nn) rng4 rds")
  from circle_road_start [of L ?rng] c obtain p rest where
    circle: "circle = \<lparr>px = 8000, pz = 5000\<rparr> # p # rest" by auto
  from radial_roads_append [of L nr "[0..<nat nr]" rng2 "[circle]"] r obtain m1 where
    "rds = [circle] @ m1" by auto
  moreover from random_roads_append [of L "nat nn" rng4 rds] r' obtain m2 where
    "rds' = rds @ m2" by auto
  ultimately have "rds' = circle # (m1 @ m2)" by simp
  moreover have "generate_road_network L sd = rds'"
    by (simp add: generate_road_network_def c d2 r d4 r')
  ultimately show ?thesis using circle by blast
qed

lemma segment_distance_at_start: "segment_distance x z x z x2 z2 = 0"
  by (simp add: segment_distance_def Let_def)

lemma nearest_road_distance_on_vertex:
  "nearest_road_distance ((\<lparr>px = x, pz = z\<rparr> # p # rest) # others) x z = Some 0"
proof -
  let ?ds = "segment_distances ((\<lparr>px = x, pz = z\<rparr> # p # rest) # others) x z"
  have hd: "?ds = 0 # tl ?ds"
    by (simp add: segment_distances_def road_segments_def segment_distance_at_start)
  then have ne: "?ds \<noteq> []" by auto
  have "0 \<in> set ?ds" using hd by (metis list.set_intros(1))
  moreover have "\<forall>d \<in> set ?ds. 0 \<le> d"
    by (auto simp: segment_distances_def segment_distance_nonneg)
  ultimately have "Min (set ?ds) = 0"
    by (intro Min_eqI) auto
  with ne show ?thesis by (simp add: nearest_road_distance_def)
qed

lemma road_factor_at_circle_start:
  "road_factor_of (generate_road_network L sd) 8000 5000 = 0"
proof -
  from generate_road_network_start [of L sd] obtain p rest others where
    "generate_road_network L sd = (\<lparr>px = 8000, pz = 5000\<rparr> # p # rest) # others" by blast
  then show ?thesis
    by (simp add: road_factor_of_def nearest_road_distance_on_vertex)
qed

subsection \<open>Chunks are generated without an exception\<close>

lemma chunk_heightmap_eq:
  "chunk_heightmap L self wx wz res = Inr (heightmap_of L self wx wz res)"
  by (simp add: chunk_heightmap_Inr heightmap_of_def)

lemma grid_heightmap_of: "grid (heightmap_of L self wx wz res) (int res)"
  by (auto simp: heightmap_of_def grid_def list_all_iff)

lemma chunk_vertices_eq:
  "grid hm (int res) \<Longrightarrow> chunk_vertices hm wx wz res = Inr (vertices_of hm wx wz res)"
  by (simp add: chunk_vertices_Inr vertices_of_def)

lemma vertices_of_unit_up: "list_all (\<lambda>v. unit_up (normal v)) (vertices_of hm wx wz res)"
  by (auto simp: vertices_of_def list_all_iff clamped_normal_def normal_of_unit_up)

lemma length_vertices_of: "length (vertices_of hm wx wz res) = (res + 1) * (res + 1)"
  by (simp add: vertices_of_def)

lemma generate_objects_hm: "generate_objects L self cx cz hm = generate_objects L self cx cz []"
  by (simp add: generate_objects_def)

lemma generate_chunk_Inr:
  assumes "generate_objects L self cx cz [] = Inr objs"
  shows "generate_chunk L self cx cz =
     Inr \<lparr>c_position = (cx * chunk_size, cz * chunk_size),
          c_size = chunk_size,
          resolution = 16,
          heightmap = heightmap_of L self (cx * chunk_size) (cz * chunk_size) 16,
          vertices = vertices_of (heightmap_of L self (cx * chunk_size) (cz * chunk_size) 16)
                       (cx * chunk_size) (cz * chunk_size) 16,
          indices = chunk_indices 16,
          c_roads = chunk_road_segments self (cx * chunk_size) (cz * chunk_size),
          objects = objs\<rparr>"
proof -
  have g: "grid (heightmap_of L self (cx * chunk_size) (cz * chunk_size) 16) (int 16)"
    by (rule grid_heightmap_of)
  have o: "generate_objects L self cx cz
             (heightmap_of L self (cx * chunk_size) (cz * chunk_size) 16) = Inr objs"
    using assms generate_objects_hm by metis
  show ?thesis
    unfolding generate_chunk_def Let_def chunk_heightmap_eq bindE_Inr
      chunk_vertices_eq [OF g] o
    by (rule refl)
qed

lemma generate_chunk_total:
  "\<exists>c. generate_chunk L self cx cz = Inr c
       \<and> grid (heightmap c) 16
       \<and> length (vertices c) = 289
       \<and> list_all (\<lambda>v. unit_up (normal v)) (vertices c)
       \<and> generate_objects L self cx cz [] = Inr (objects c)"
proof -
  from generate_objects_Inr [of L self cx cz "[]"] obtain objs where
    o: "generate_objects L self cx cz [] = Inr objs" by blast
  have g: "grid (heightmap_of L self (cx * chunk_size) (cz * chunk_size) 16) 16"
    using grid_heightmap_of [of L self "cx * chunk_size" "cz * chunk_size" 16] by simp
  show ?thesis
    unfolding generate_chunk_Inr [OF o]
    using g by (simp add: o vertices_of_unit_up length_vertices_of)
qed

text \<open>
  The sizes of the example of the specification: a heightmap of 17 rows of 17 samples,
  289 vertices and 16 * 16 * 6 = 1536 indices, for every seed and every chunk.
\<close>

lemma length_chunk_indices: "length (chunk_indices res) = 6 * (res * res)"
proof -
  have "length (concat (map f ps)) = 6 * length ps"
    if "\<And>p. p \<in> set ps \<Longrightarrow> length (f p) = 6" for f :: "nat \<times> nat \<Rightarrow> nat list" and ps
    using that by (induction ps) simp_all
  then show ?thesis
    unfolding chunk_indices_def by (simp add: case_prod_beta Let_def)
qed

lemma chunk_shape:
  "\<exists>c. generate_chunk L self cx cz = Inr c
       \<and> length (heightmap c) = 17 \<and> list_all (\<lambda>row. length row = 17) (heightmap c)
       \<and> length (vertices c) = 289 \<and> length (indices c) = 1536"
proof -
  from generate_objects_Inr [of L self cx cz "[]"] obtain objs where
    o: "generate_objects L self cx cz [] = Inr objs" by blast
  show ?thesis
    unfolding generate_chunk_Inr [OF o]
    by (simp add: length_vertices_of length_chunk_indices heightmap_of_def list_all_iff)
qed

lemma sqrt9: "sqrt 9 = 3"
  by (rule real_sqrt_unique) simp_all

text \<open>
  Claim C6. On a heightmap of \<open>res + 1\<close> rows of \<open>res + 1\<close> samples and for a vertex
  \<open>(x, z)\<close> of the grid, \<open>calculate_normal\<close> raises nothing and returns the normal of
  the central differences with the neighbour index clamped at the border (at \<open>x = 0\<close>
  the left sample is the vertex's own, and so on); that normal has length one and a
  positive vertical component; and every chunk is generated without an exception, its
  vertices carrying these normals over its own 17 by 17 heightmap. Floats are read as
  reals: the length is exactly one in real arithmetic.
\<close>

theorem calculate_normal_unit:
  "(grid hm res \<and> 0 \<le> x \<and> x \<le> res \<and> 0 \<le> z \<and> z \<le> res
      \<longrightarrow> calculate_normal hm x z res = Inr (clamped_normal hm x z res))
   \<and> unit_up (clamped_normal hm x z res)
   \<and> (\<exists>c. generate_chunk L self cx cz = Inr c
          \<and> grid (heightmap c) 16
          \<and> vertices c = vertices_of (heightmap c) (fst (c_position c)) (snd (c_position c)) 16
          \<and> list_all (\<lambda>v. unit_up (normal v)) (vertices c))"
proof (intro conjI)
  show "grid hm res \<and> 0 \<le> x \<and> x \<le> res \<and> 0 \<le> z \<and> z \<le> res
      \<longrightarrow> calculate_normal hm x z res = Inr (clamped_normal hm x z res)"
    by (simp add: calculate_normal_Inr)
  show "unit_up (clamped_normal hm x z res)"
    by (simp add: clamped_normal_def normal_of_unit_up)
  from generate_objects_Inr [of L self cx cz "[]"] obtain objs where
    o: "generate_objects L self cx cz [] = Inr objs" by blast
  have g: "grid (heightmap_of L self (cx * chunk_size) (cz * chunk_size) 16) 16"
    using grid_heightmap_of [of L self "cx * chunk_size" "cz * chunk_size" 16] by simp
  show "\<exists>c. generate_chunk L self cx cz = Inr c
          \<and> grid (heightmap c) 16
          \<and> vertices c = vertices_of (heightmap c) (fst (c_position c)) (snd (c_position c)) 16
          \<and> list_all (\<lambda>v. unit_up (normal v)) (vertices c)"
    unfolding generate_chunk_Inr [OF o]
    using g by (simp add: vertices_of_unit_up)
qed

text \<open>
  A 3 by 3 heightmap: the inner vertex has the differences 1 and 2 and the normal
  (1/3, 2/3, 2/3); the corner vertex (0, 0) reuses its own sample on the left and above
  and gets (-2/3, 2/3, -1/3).
\<close>

theorem calculate_normal_unit_witness:
  "grid small_heightmap 2
   \<and> calculate_normal small_heightmap 1 1 2 = Inr \<lparr>vx = 1 / 3, vy = 2 / 3, vz = 2 / 3\<rparr>
   \<and> calculate_normal small_heightmap 0 0 2 = Inr \<lparr>vx = - 2 / 3, vy = 2 / 3, vz = - 1 / 3\<rparr>
   \<and> unit_up \<lparr>vx = - 2 / 3, vy = 2 / 3, vz = - 1 / 3\<rparr>"
proof -
  have g: "grid small_heightmap 2"
    by (simp add: grid_def small_heightmap_def)
  have a: "clamped_normal small_heightmap 1 1 2 = \<lparr>vx = 1 / 3, vy = 2 / 3, vz = 2 / 3\<rparr>"
    by (simp add: clamped_normal_def normal_of_def small_heightmap_def sqrt9)
  have b: "clamped_normal small_heightmap 0 0 2 = \<lparr>vx = - 2 / 3, vy = 2 / 3, vz = - 1 / 3\<rparr>"
    by (simp add: clamped_normal_def normal_of_def small_heightmap_def sqrt9)
  have "calculate_normal small_heightmap 1 1 2 = Inr \<lparr>vx = 1 / 3, vy = 2 / 3, vz = 2 / 3\<rparr>"
    using calculate_normal_unit [of small_heightmap 2 1 1 flat_lib world42 0 0] g a by simp
  moreover
  have "calculate_normal small_heightmap 0 0 2 = Inr \<lparr>vx = - 2 / 3, vy = 2 / 3, vz = - 1 / 3\<rparr>"
    using calculate_normal_unit [of small_heightmap 2 0 0 flat_lib world42 0 0] g b by simp
  moreover
  have "unit_up \<lparr>vx = - 2 / 3, vy = 2 / 3, vz = - 1 / 3\<rparr>"
    using calculate_normal_unit [of small_heightmap 2 0 0 flat_lib world42 0 0] b by simp
  ultimately show ?thesis using g by simp
qed

subsection \<open>The blend of terrain and road-bed height\<close>

lemma blend_between:
  fixes r t f :: real
  assumes "0 \<le> f" "f \<le> 1"
  shows "min r t \<le> t * f + r * (1 - f) \<and> t * f + r * (1 - f) \<le> max r t"
proof -
  have e: "t * f + r * (1 - f) = r + f * (t - r)" by (simp add: algebra_simps)
  show ?thesis
  proof (cases "r \<le> t")
    case True
    then have lo: "0 \<le> f * (t - r)" using assms by simp
    have up: "f * (t - r) \<le> t - r"
      using mult_right_mono [of f 1 "t - r"] assms True by simp
    show ?thesis unfolding e using True lo up by linarith
  next
    case False
    then have up: "f * (t - r) \<le> 0" using assms by (simp add: mult_nonneg_nonpos)
    have lo: "t - r \<le> f * (t - r)"
      using mult_right_mono_neg [of f 1 "t - r"] assms False by simp
    show ?thesis unfolding e using False lo up by linarith
  qed
qed

lemma blend_strictly_between:
  fixes r t f :: real
  assumes "0 < f" "f < 1" "r \<noteq> t"
  shows "min r t < t * f + r * (1 - f) \<and> t * f + r * (1 - f) < max r t"
proof -
  have e: "t * f + r * (1 - f) = r + f * (t - r)" by (simp add: algebra_simps)
  show ?thesis
  proof (cases "r < t")
    case True
    then have lo: "0 < f * (t - r)" using assms by simp
    have up: "f * (t - r) < t - r"
      using mult_strict_right_mono [of f 1 "t - r"] assms True by simp
    show ?thesis unfolding e using True lo up by linarith
  next
    case False
    with assms have lt: "t < r" by simp
    then have up: "f * (t - r) < 0" using assms by (simp add: mult_pos_neg)
    have lo: "t - r < f * (t - r)"
      using mult_strict_right_mono_neg [of f 1 "t - r"] assms lt by simp
    show ?thesis unfolding e using lt lo up by linarith
  qed
qed

lemma terrain_noise_height_range:
  "noise_in_range L \<Longrightarrow>
     0 \<le> terrain_noise_height L self x z \<and> terrain_noise_height L self x z \<le> terrain_height"
proof -
  assume a: "noise_in_range L"
  let ?n = "pnoise2 L (x * terrain_scale) (z * terrain_scale) 6 0.5 2 1024 1024 (seed self)"
  from a have "- 1 \<le> ?n" "?n \<le> 1" by (simp_all add: noise_in_range_def)
  then show ?thesis by (simp add: terrain_noise_height_def terrain_height_def)
qed

text \<open>
  Claim C4, as amended. Provided the noise library returns values between -1 and 1:
  \<open>get_terrain_height\<close> raises nothing; where the nearest road segment is farther
  than \<open>road_width\<close> (or there is no segment), it returns the noise terrain height,
  which lies between 0 and \<open>terrain_height\<close>; where the distance \<open>d\<close> is at most
  \<open>road_width\<close>, it returns the blend \<open>t * f + r * (1 - f)\<close> of the noise terrain
  height \<open>t\<close> and the road-bed height \<open>r\<close> with \<open>f = min 1 (d / road_width)\<close>,
  which lies between the two heights, ends included, and strictly between them when
  \<open>0 < d < road_width\<close> and the two heights differ.
\<close>

theorem get_terrain_height_blend:
  assumes "noise_in_range L"
  shows "\<exists>h. get_terrain_height L self x z = Inr h \<and>
     (case nearest_road_distance (roads self) x z of
        None \<Rightarrow> h = terrain_noise_height L self x z \<and> 0 \<le> h \<and> h \<le> terrain_height
      | Some d \<Rightarrow>
          if d > road_width
          then h = terrain_noise_height L self x z \<and> 0 \<le> h \<and> h \<le> terrain_height
          else (let f = min 1 (d / road_width);
                    r = get_road_height L self x z;
                    t = terrain_noise_height L self x z
                in h = t * f + r * (1 - f) \<and> min r t \<le> h \<and> h \<le> max r t
                   \<and> (0 < d \<and> d < road_width \<and> r \<noteq> t \<longrightarrow> min r t < h \<and> h < max r t)))"
proof (cases "nearest_road_distance (roads self) x z")
  case None
  then have "terrain_height_of L self x z = terrain_noise_height L self x z"
    by (simp add: terrain_height_of_def road_factor_of_def)
  with None terrain_noise_height_range [OF assms, of self x z] show ?thesis
    by (simp add: get_terrain_height_Inr)
next
  case (Some d)
  have d0: "0 \<le> d" using Some by (rule nearest_road_distance_nonneg)
  show ?thesis
  proof (cases "d > road_width")
    case True
    then have "road_factor_of (roads self) x z = 1"
      using Some by (simp add: road_factor_of_def road_width_def)
    then have "terrain_height_of L self x z = terrain_noise_height L self x z"
      by (simp add: terrain_height_of_def)
    with Some True terrain_noise_height_range [OF assms, of self x z] show ?thesis
      by (simp add: get_terrain_height_Inr)
  next
    case False
    let ?f = "min 1 (d / road_width)"
    let ?r = "get_road_height L self x z"
    let ?t = "terrain_noise_height L self x z"
    have f: "road_factor_of (roads self) x z = ?f"
      using Some by (simp add: road_factor_of_def)
    have f01: "0 \<le> ?f" "?f \<le> 1" using d0 by (simp_all add: road_width_def)
    have h: "terrain_height_of L self x z = ?t * ?f + ?r * (1 - ?f)"
      by (cases "?f < 1") (use f01 in \<open>auto simp: terrain_height_of_def f Let_def\<close>)
    have b: "min ?r ?t \<le> ?t * ?f + ?r * (1 - ?f) \<and> ?t * ?f + ?r * (1 - ?f) \<le> max ?r ?t"
      using f01 by (rule blend_between)
    have s: "0 < d \<and> d < road_width \<and> ?r \<noteq> ?t
               \<longrightarrow> min ?r ?t < ?t * ?f + ?r * (1 - ?f) \<and> ?t * ?f + ?r * (1 - ?f) < max ?r ?t"
    proof (intro impI)
      assume a: "0 < d \<and> d < road_width \<and> ?r \<noteq> ?t"
      then have "0 < ?f" "?f < 1" by (simp_all add: road_width_def)
      with a show "min ?r ?t < ?t * ?f + ?r * (1 - ?f) \<and> ?t * ?f + ?r * (1 - ?f) < max ?r ?t"
        by (intro blend_strictly_between) simp_all
    qed
    show ?thesis
      using Some False b s
      by (simp add: get_terrain_height_Inr h Let_def)
  qed
qed


lemma noise_in_range_flat_lib: "noise_in_range flat_lib"
  by (simp add: noise_in_range_def flat_lib_def)

lemma randint_in_range_flat_lib: "randint_in_range flat_lib"
  by (simp add: randint_in_range_def flat_lib_def)

lemma roads_WorldGenerator: "roads (WorldGenerator L sd) = generate_road_network L sd"
  by (simp add: WorldGenerator_def)

lemma seed_WorldGenerator: "seed (WorldGenerator L sd) = sd"
  by (simp add: WorldGenerator_def)

lemma nearest_at_circle_start:
  "nearest_road_distance (generate_road_network L sd) 8000 5000 = Some 0"
proof -
  from generate_road_network_start [of L sd] obtain p rest others where
    "generate_road_network L sd = (\<lparr>px = 8000, pz = 5000\<rparr> # p # rest) # others" by blast
  then show ?thesis
    by (simp add: nearest_road_distance_on_vertex)
qed

lemma sqrt400: "sqrt 400 = 20"
  by (rule real_sqrt_unique) simp_all

lemma nearest_one_road_world: "nearest_road_distance (roads one_road_world) 5 20 = Some 20"
  by (simp add: one_road_world_def nearest_road_distance_def segment_distances_def
      road_segments_def segment_distance_def Let_def sqrt400)

text \<open>
  On the road vertex (8000, 5000) of the world of seed 42 the blend is the road-bed
  height 10; 20 units beside a single road from (0, 0) to (10, 0) the height is the
  noise terrain height 50.
\<close>

theorem get_terrain_height_blend_witness:
  "noise_in_range flat_lib
   \<and> nearest_road_distance (roads world42) 8000 5000 = Some 0
   \<and> get_terrain_height flat_lib world42 8000 5000 = Inr 10
   \<and> nearest_road_distance (roads one_road_world) 5 20 = Some 20
   \<and> get_terrain_height flat_lib one_road_world 5 20 = Inr 50"
proof -
  have n: "nearest_road_distance (roads world42) 8000 5000 = Some 0"
    by (simp add: world42_def roads_WorldGenerator nearest_at_circle_start)
  have r: "get_road_height flat_lib world42 8000 5000 = 10"
    by (simp add: get_road_height_def flat_lib_def terrain_height_def Let_def)
  have a: "get_terrain_height flat_lib world42 8000 5000 = Inr 10"
    using get_terrain_height_blend [OF noise_in_range_flat_lib, of world42 8000 5000]
    by (auto simp: n r road_width_def Let_def)
  have t: "terrain_noise_height flat_lib one_road_world 5 20 = 50"
    by (simp add: terrain_noise_height_def flat_lib_def terrain_height_def)
  have b: "get_terrain_height flat_lib one_road_world 5 20 = Inr 50"
    using get_terrain_height_blend [OF noise_in_range_flat_lib, of one_road_world 5 20]
    by (auto simp: nearest_one_road_world t road_width_def)
  show ?thesis
    using noise_in_range_flat_lib n a nearest_one_road_world b by simp
qed

text \<open>
  The claim as stated fails on the road itself. (8000, 5000) is the first vertex of the
  circular road for every seed, so its distance to the nearest segment is 0, within
  \<open>road_width\<close>; the height returned there is the road-bed height, 10 with flat noise,
  and not a value strictly between it and the noise terrain height 50.
\<close>

theorem get_terrain_height_blend_counterexample:
  "nearest_road_distance (roads world42) 8000 5000 = Some 0
   \<and> get_road_height flat_lib world42 8000 5000 = 10
   \<and> terrain_noise_height flat_lib world42 8000 5000 = 50
   \<and> get_terrain_height flat_lib world42 8000 5000 = Inr 10
   \<and> \<not> strictly_between (get_road_height flat_lib world42 8000 5000)
         (terrain_noise_height flat_lib world42 8000 5000) 10"
proof -
  have n: "nearest_road_distance (roads world42) 8000 5000 = Some 0"
    by (simp add: world42_def roads_WorldGenerator nearest_at_circle_start)
  have r: "get_road_height flat_lib world42 8000 5000 = 10"
    by (simp add: get_road_height_def flat_lib_def terrain_height_def Let_def)
  have t: "terrain_noise_height flat_lib world42 8000 5000 = 50"
    by (simp add: terrain_noise_height_def flat_lib_def terrain_height_def)
  have "get_terrain_height flat_lib world42 8000 5000 = Inr 10"
    by (simp add: get_terrain_height_Inr terrain_height_of_def road_factor_of_def n r
        road_width_def)
  with n r t show ?thesis by (simp add: strictly_between_def)
qed

subsection \<open>Bounds on the scenery of a chunk\<close>

lemma randint_in_range_top_lib: "randint_in_range top_lib"
  by (simp add: randint_in_range_def top_lib_def flat_lib_def)

lemma sqrt100: "sqrt 100 = 10"
  by (rule real_sqrt_unique) simp_all

lemma sqrt240100: "sqrt 240100 = 490"
  by (rule real_sqrt_unique) simp_all

lemma road_factor_side_road: "road_factor_of (roads side_road_world) 0 0 = 2 / 3"
  by (simp add: side_road_world_def road_factor_of_def nearest_road_distance_def
      segment_distances_def road_segments_def segment_distance_def Let_def sqrt100 road_width_def)

lemma road_factor_one_road: "road_factor_of (roads one_road_world) 500 0 = 1"
  by (simp add: one_road_world_def road_factor_of_def nearest_road_distance_def
      segment_distances_def road_segments_def segment_distance_def Let_def sqrt240100
      road_width_def)

lemma terrain_side_road: "terrain_height_of top_lib side_road_world 0 0 = 110 / 3"
  by (simp add: terrain_height_of_def road_factor_side_road terrain_noise_height_def
      get_road_height_def top_lib_def flat_lib_def terrain_height_def Let_def)

lemma terrain_one_road: "terrain_height_of flat_lib one_road_world 500 0 = 50"
  by (simp add: terrain_height_of_def road_factor_one_road terrain_noise_height_def
      flat_lib_def terrain_height_def Let_def)

lemma top_lib_draws:
  "rng_random top_lib g = (0, g)" "rng_randint top_lib a b g = (b, g)"
  "rng_choice top_lib xs g = (hd xs, g)" "Random top_lib sd = ()"
  by (simp_all add: top_lib_def flat_lib_def)

lemma flat_lib_draws:
  "rng_random flat_lib g = (0, g)" "rng_randint flat_lib a b g = (a, g)"
  "rng_choice flat_lib xs g = (hd xs, g)" "Random flat_lib sd = ()"
  by (simp_all add: flat_lib_def)

lemma place_trees_side_road:
  "place_trees top_lib side_road_world 0 0 n () objs = Inr (objs, ())"
  by (induction n)
     (simp_all add: top_lib_draws get_road_factor_Inr road_factor_side_road)

lemma place_buildings_side_road_step:
  "place_buildings top_lib side_road_world 0 0 (Suc n) () objs
     = place_buildings top_lib side_road_world 0 0 n () (objs @ [the_house])"
  by (simp add: top_lib_draws get_road_factor_Inr road_factor_side_road
      get_terrain_height_Inr the_house_def terrain_side_road)

lemma generate_objects_side_road:
  "generate_objects top_lib side_road_world 0 0 [] = Inr [the_house, the_house]"
proof -
  have b: "place_buildings top_lib side_road_world 0 0 (Suc (Suc 0)) () []
             = Inr ([the_house, the_house], ())"
    by (simp only: place_buildings_side_road_step) simp
  have n: "nat 2 = Suc (Suc 0)" by simp
  have "generate_objects top_lib side_road_world 0 0 []
          = bindE (place_trees top_lib side_road_world 0 0 (nat 20) () []) (\<lambda>(objs, rng3).
              bindE (place_buildings top_lib side_road_world 0 0 (nat 2) rng3 objs)
                (\<lambda>(objs', rng4). Inr objs'))"
    by (simp add: generate_objects_def top_lib_draws chunk_size_def)
  then show ?thesis
    by (simp only: place_trees_side_road n bindE_Inr prod.case b)
qed

lemma place_trees_one_road_step:
  "place_trees flat_lib one_road_world 500 0 (Suc n) () objs
     = place_trees flat_lib one_road_world 500 0 n () (objs @ [the_pine])"
  by (simp add: flat_lib_draws get_road_factor_Inr road_factor_one_road chunk_size_def
      get_terrain_height_Inr the_pine_def terrain_one_road)

lemma generate_objects_one_road:
  "generate_objects flat_lib one_road_world 1 0 []
     = Inr [the_pine, the_pine, the_pine, the_pine, the_pine]"
proof -
  have t: "place_trees flat_lib one_road_world 500 0 (Suc (Suc (Suc (Suc (Suc 0))))) () []
             = Inr ([the_pine, the_pine, the_pine, the_pine, the_pine], ())"
    by (simp only: place_trees_one_road_step) simp
  have n: "nat 5 = Suc (Suc (Suc (Suc (Suc 0))))" by simp
  have "generate_objects flat_lib one_road_world 1 0 []
          = bindE (place_trees flat_lib one_road_world 500 0 (nat 5) () []) (\<lambda>(objs, rng3).
              bindE (place_buildings flat_lib one_road_world 500 0 (nat 0) rng3 objs)
                (\<lambda>(objs', rng4). Inr objs'))"
    by (simp add: generate_objects_def flat_lib_draws chunk_size_def)
  then show ?thesis
    by (simp only: n t bindE_Inr prod.case) simp
qed

lemma get_road_factor_world42: "get_road_factor world42 8000 5000 = Inr 0"
  by (simp add: get_road_factor_Inr world42_def roads_WorldGenerator road_factor_at_circle_start)

lemma place_trees_world42:
  "place_trees flat_lib world42 8000 5000 n () objs = Inr (objs, ())"
  by (induction n)
     (simp_all add: flat_lib_draws get_road_factor_world42)

lemma generate_objects_world42: "generate_objects flat_lib world42 16 10 [] = Inr []"
proof -
  have "generate_objects flat_lib world42 16 10 []
          = bindE (place_trees flat_lib world42 8000 5000 (nat 5) () []) (\<lambda>(objs, rng3).
              bindE (place_buildings flat_lib world42 8000 5000 (nat 0) rng3 objs)
                (\<lambda>(objs', rng4). Inr objs'))"
    by (simp add: generate_objects_def flat_lib_draws chunk_size_def)
  then show ?thesis
    by (simp only: place_trees_world42 bindE_Inr prod.case) simp
qed

text \<open>
  Claim C5, as amended. Provided \<open>randint(a, b)\<close> returns a value between \<open>a\<close> and
  \<open>b\<close>: \<open>generate_objects\<close> raises nothing; it tries between 5 and 20 tree positions
  and between 0 and 2 building positions, and a position that fails the road-factor test
  is skipped without another try, so the list holds at most as many trees and buildings
  as were tried (at most 20 and at most 2, possibly none); it holds nothing but trees and
  buildings; every tree stands where the road factor is at least 0.9, every building
  where it is between 0.5 and 0.9, and every building's rotation is a multiple of 90.
\<close>

theorem generate_objects_bounds:
  assumes "randint_in_range L"
  shows "\<exists>objs. generate_objects L self cx cz hm = Inr objs
           \<and> 5 \<le> num_trees_drawn L self cx cz \<and> num_trees_drawn L self cx cz \<le> 20
           \<and> 0 \<le> num_buildings_drawn L self cx cz \<and> num_buildings_drawn L self cx cz \<le> 2
           \<and> length (filter is_tree objs) \<le> nat (num_trees_drawn L self cx cz)
           \<and> length (filter is_building objs) \<le> nat (num_buildings_drawn L self cx cz)
           \<and> length (filter is_tree objs) \<le> 20
           \<and> length (filter is_building objs) \<le> 2
           \<and> list_all (\<lambda>s. is_tree s \<or> is_building s) objs
           \<and> list_all (well_placed self) objs"
proof -
  from generate_objects_Inr [of L self cx cz hm] obtain trees buildings where
    g: "generate_objects L self cx cz hm = Inr (trees @ buildings)"
       "list_all is_tree trees" "list_all is_building buildings"
       "length trees \<le> nat (num_trees_drawn L self cx cz)"
       "length buildings \<le> nat (num_buildings_drawn L self cx cz)"
       "list_all (well_placed self) (trees @ buildings)"
    unfolding num_trees_drawn_def num_buildings_drawn_def by blast
  from assms have nt: "5 \<le> num_trees_drawn L self cx cz" "num_trees_drawn L self cx cz \<le> 20"
    by (simp_all add: randint_in_range_def num_trees_drawn_def)
  from assms have nb: "0 \<le> num_buildings_drawn L self cx cz"
    "num_buildings_drawn L self cx cz \<le> 2"
    by (simp_all add: randint_in_range_def num_buildings_drawn_def)
  from g(4) nt have lt: "length trees \<le> 20" by linarith
  from g(5) nb have lb: "length buildings \<le> 2" by linarith
  have ft: "filter is_tree (trees @ buildings) = trees"
    using g(2,3) by (simp add: filter_all filter_none is_building_not_tree)
  have fb: "filter is_building (trees @ buildings) = buildings"
    using g(2,3) by (simp add: filter_all filter_none is_tree_not_building)
  have k: "list_all (\<lambda>s. is_tree s \<or> is_building s) (trees @ buildings)"
    using g(2,3) by (auto simp: list_all_iff)
  show ?thesis
    using g(1) g(4) g(5) g(6) lt lb k nt nb
    by (intro exI [of _ "trees @ buildings"]) (simp only: ft fb simp_thms)
qed

text \<open>
  With the road from (0, 10) to (10, 10) and every count drawn at its top value, chunk
  (0, 0) tries 20 trees and 2 buildings at its corner (0, 0), where the road factor is
  2/3: it places no tree and two houses turned by 270. With the road from (0, 0) to
  (10, 0) and every draw at its least value, chunk (1, 0) places five pines at (500, 0),
  far from the road.
\<close>

theorem generate_objects_bounds_witness:
  "randint_in_range top_lib
   \<and> generate_objects top_lib side_road_world 0 0 [] = Inr [the_house, the_house]
   \<and> well_placed side_road_world the_house
   \<and> generate_objects flat_lib one_road_world 1 0 []
       = Inr [the_pine, the_pine, the_pine, the_pine, the_pine]
   \<and> well_placed one_road_world the_pine"
proof -
  have "well_placed side_road_world the_house"
    using generate_objects_bounds [OF randint_in_range_top_lib, of side_road_world 0 0 "[]"]
    by (simp add: generate_objects_side_road)
  moreover have "well_placed one_road_world the_pine"
    using generate_objects_bounds [OF randint_in_range_flat_lib, of one_road_world 1 0 "[]"]
    by (simp add: generate_objects_one_road)
  ultimately show ?thesis
    using randint_in_range_top_lib generate_objects_side_road generate_objects_one_road
    by simp
qed

text \<open>
  The claim as stated fails where positions are rejected. In the world of seed 42 with
  every draw at its least value, chunk (16, 10) tries five trees, all at its corner
  (8000, 5000), the first vertex of the circular road; each is rejected, and the chunk has
  no tree at all, fewer than the five the claim promises.
\<close>

theorem generate_objects_bounds_counterexample:
  "num_trees_drawn flat_lib world42 16 10 = 5
   \<and> generate_objects flat_lib world42 16 10 [] = Inr []
   \<and> map_sum id objects (generate_chunk flat_lib world42 16 10) = Inr []
   \<and> \<not> 5 \<le> length (filter is_tree ([] :: scenery list))"
  by (simp add: generate_chunk_Inr [OF generate_objects_world42] generate_objects_world42
      num_trees_drawn_def flat_lib_draws)

subsection \<open>Cache keys\<close>

lemma digit_char_val: "d < 10 \<Longrightarrow> digit_val (char_of (48 + d)) = d"
  by (simp add: digit_val_def)

lemma digit_char_bounds:
  assumes "d < 10"
  shows "(of_char (char_of (48 + d)) :: nat) = 48 + d"
  using assms by simp

lemma nat_of_digits_snoc: "nat_of_digits (cs @ [c]) = 10 * nat_of_digits cs + digit_val c"
  by (simp add: nat_of_digits_def)

lemma nat_of_digits_str_nat: "nat_of_digits (str_nat n) = n"
proof (induction n rule: str_nat.induct)
  case (1 n)
  show ?case
  proof (cases "n < 10")
    case True
    then show ?thesis
      by (subst str_nat.simps) (simp add: nat_of_digits_def digit_char_val)
  next
    case False
    then have "nat_of_digits (str_nat (n div 10)) = n div 10" using 1 by simp
    moreover have "digit_val (char_of (48 + n mod 10)) = n mod 10"
      by (rule digit_char_val) simp
    ultimately show ?thesis
      using False by (subst str_nat.simps) (simp add: nat_of_digits_snoc)
  qed
qed

lemma str_nat_inject: "str_nat a = str_nat b \<Longrightarrow> a = b"
  using nat_of_digits_str_nat by metis

lemma str_nat_chars: "c \<in> set (str_nat n) \<Longrightarrow> 48 \<le> (of_char c :: nat) \<and> (of_char c :: nat) < 58"
proof (induction n rule: str_nat.induct)
  case (1 n)
  show ?case
  proof (cases "n < 10")
    case True
    with 1(2) have "c = char_of (48 + n)" by (subst (asm) str_nat.simps) simp
    with True show ?thesis by simp
  next
    case False
    with 1(2) have "c \<in> set (str_nat (n div 10)) \<or> c = char_of (48 + n mod 10)"
      by (subst (asm) str_nat.simps) auto
    then show ?thesis
    proof
      assume "c \<in> set (str_nat (n div 10))"
      with 1(1) False show ?thesis by simp
    next
      assume c: "c = char_of (48 + n mod 10)"
      have "n mod 10 < 10" by simp
      then have "(of_char (char_of (48 + n mod 10)) :: nat) = 48 + n mod 10"
        by (rule digit_char_bounds)
      with c show ?thesis by simp
    qed
  qed
qed

lemma str_nat_nonempty: "str_nat n \<noteq> []"
  by (subst str_nat.simps) simp

lemma comma_notin_str_nat: "CHR '','' \<notin> set (str_nat n)"
  using str_nat_chars [of "CHR '',''" n] by auto

lemma minus_notin_str_nat: "CHR ''-'' \<notin> set (str_nat n)"
  using str_nat_chars [of "CHR ''-''" n] by auto

lemma comma_notin_str_int: "CHR '','' \<notin> set (str_int i)"
  by (simp add: str_int_def comma_notin_str_nat)

lemma str_int_inject:
  assumes "str_int a = str_int b"
  shows "a = b"
proof -
  have hd_nat: "\<And>n. hd (str_nat n) \<noteq> CHR ''-''"
    using minus_notin_str_nat str_nat_nonempty by (metis hd_in_set)
  show ?thesis
  proof (cases "a < 0")
    case True
    then have ha: "str_int a = CHR ''-'' # str_nat (nat (- a))" by (simp add: str_int_def)
    show ?thesis
    proof (cases "b < 0")
      case True
      then have "str_int b = CHR ''-'' # str_nat (nat (- b))" by (simp add: str_int_def)
      with ha assms have "nat (- a) = nat (- b)" by (auto dest: str_nat_inject)
      with True \<open>a < 0\<close> show ?thesis by linarith
    next
      case False
      then have "str_int b = str_nat (nat b)" by (simp add: str_int_def)
      with ha assms hd_nat [of "nat b"] show ?thesis by (metis list.sel(1))
    qed
  next
    case False
    then have ha: "str_int a = str_nat (nat a)" by (simp add: str_int_def)
    show ?thesis
    proof (cases "b < 0")
      case True
      then have "str_int b = CHR ''-'' # str_nat (nat (- b))" by (simp add: str_int_def)
      with ha assms hd_nat [of "nat a"] show ?thesis by (metis list.sel(1))
    next
      case False
      then have "str_int b = str_nat (nat b)" by (simp add: str_int_def)
      with ha assms have "nat a = nat b" by (auto dest: str_nat_inject)
      with False \<open>\<not> a < 0\<close> show ?thesis by linarith
    qed
  qed
qed

lemma takeWhile_separator: "c \<notin> set xs \<Longrightarrow> takeWhile (\<lambda>x. x \<noteq> c) (xs @ c # ys) = xs"
  by (induction xs) auto

lemma split_at_separator:
  assumes "xs @ c # ys = xs' @ c # ys'" "c \<notin> set xs" "c \<notin> set xs'"
  shows "xs = xs' \<and> ys = ys'"
proof -
  have "takeWhile (\<lambda>x. x \<noteq> c) (xs @ c # ys) = xs"
    using assms(2) by (rule takeWhile_separator)
  moreover have "takeWhile (\<lambda>x. x \<noteq> c) (xs' @ c # ys') = xs'"
    using assms(3) by (rule takeWhile_separator)
  ultimately have "xs = xs'" using assms(1) by simp
  with assms(1) show ?thesis by simp
qed

lemma chunk_key_inject:
  assumes "chunk_key a b = chunk_key c d"
  shows "a = c \<and> b = d"
proof -
  from assms have "str_int a @ CHR '','' # str_int b = str_int c @ CHR '','' # str_int d"
    by (simp add: chunk_key_def)
  then have "str_int a = str_int c \<and> str_int b = str_int d"
    by (rule split_at_separator) (rule comma_notin_str_int)+
  then show ?thesis by (simp add: str_int_inject)
qed

subsection \<open>The chunk cache\<close>

lemma terrain_height_of_cong:
  "seed s' = seed s \<Longrightarrow> roads s' = roads s \<Longrightarrow> terrain_height_of L s' x z = terrain_height_of L s x z"
  by (simp add: terrain_height_of_def terrain_noise_height_def get_road_height_def Let_def)

lemma place_trees_cong:
  assumes "seed s' = seed s" "roads s' = roads s"
  shows "place_trees L s' wx wz n rng objs = place_trees L s wx wz n rng objs"
proof (induction n arbitrary: rng objs)
  case 0
  then show ?case by simp
next
  case (Suc n)
  then show ?case
    by (simp add: get_road_factor_Inr get_terrain_height_Inr assms
        terrain_height_of_cong [OF assms] split_beta Let_def)
qed

lemma place_buildings_cong:
  assumes "seed s' = seed s" "roads s' = roads s"
  shows "place_buildings L s' wx wz n rng objs = place_buildings L s wx wz n rng objs"
proof (induction n arbitrary: rng objs)
  case 0
  then show ?case by simp
next
  case (Suc n)
  then show ?case
    by (simp add: get_road_factor_Inr get_terrain_height_Inr assms
        terrain_height_of_cong [OF assms] split_beta Let_def)
qed

lemma generate_objects_cong:
  assumes "seed s' = seed s" "roads s' = roads s"
  shows "generate_objects L s' cx cz hm = generate_objects L s cx cz hm"
  by (simp add: generate_objects_def place_trees_cong [OF assms] place_buildings_cong [OF assms]
      assms(1))

lemma generate_chunk_cong:
  assumes "seed s' = seed s" "roads s' = roads s"
  shows "generate_chunk L s' cx cz = generate_chunk L s cx cz"
proof -
  have h: "\<And>wx wz res. heightmap_of L s' wx wz res = heightmap_of L s wx wz res"
    by (simp add: heightmap_of_def terrain_height_of_cong [OF assms])
  have r: "\<And>wx wz. chunk_road_segments s' wx wz = chunk_road_segments s wx wz"
    by (simp add: chunk_road_segments_def assms)
  from generate_objects_Inr [of L s cx cz "[]"] obtain objs where
    o: "generate_objects L s cx cz [] = Inr objs" by blast
  then have o': "generate_objects L s' cx cz [] = Inr objs"
    by (simp add: generate_objects_cong [OF assms])
  show ?thesis
    by (simp add: generate_chunk_Inr [OF o] generate_chunk_Inr [OF o'] h r)
qed

lemma get_chunk_coherent:
  assumes "cache_coherent L self"
  shows "\<exists>c self'. get_chunk L self cx cz = Inr (c, self')
           \<and> generate_chunk L self cx cz = Inr c
           \<and> cache_coherent L self' \<and> seed self' = seed self \<and> roads self' = roads self
           \<and> chunks self' (chunk_key cx cz) = Some c"
proof (cases "chunks self (chunk_key cx cz)")
  case (Some c)
  with assms obtain cx' cz' where
    k: "chunk_key cx cz = chunk_key cx' cz'" and g: "generate_chunk L self cx' cz' = Inr c"
    unfolding cache_coherent_def by blast
  from k have "cx = cx' \<and> cz = cz'" by (rule chunk_key_inject)
  with g Some assms show ?thesis by (simp add: get_chunk_def)
next
  case None
  from generate_chunk_total [of L self cx cz] obtain c where
    g: "generate_chunk L self cx cz = Inr c" by blast
  let ?s = "self\<lparr>chunks := (chunks self)(chunk_key cx cz \<mapsto> c)\<rparr>"
  have e: "\<And>x z. generate_chunk L ?s x z = generate_chunk L self x z"
    by (rule generate_chunk_cong) simp_all
  have "cache_coherent L ?s"
    unfolding cache_coherent_def
  proof (intro allI impI)
    fix k c'
    assume a: "chunks ?s k = Some c'"
    show "\<exists>x z. k = chunk_key x z \<and> generate_chunk L ?s x z = Inr c'"
    proof (cases "k = chunk_key cx cz")
      case True
      with a have "c' = c" by simp
      with True g show ?thesis by (auto simp: e)
    next
      case False
      with a have "chunks self k = Some c'" by simp
      with assms show ?thesis unfolding cache_coherent_def e by blast
    qed
  qed
  with None g show ?thesis by (simp add: get_chunk_def)
qed

lemma get_chunks_coherent:
  assumes "cache_coherent L self"
  shows "\<exists>self'. get_chunks L self rs = Inr self'
           \<and> cache_coherent L self' \<and> seed self' = seed self \<and> roads self' = roads self"
  using assms
proof (induction rs arbitrary: self)
  case Nil
  then show ?case by simp
next
  case (Cons r rs)
  obtain cx cz where r: "r = (cx, cz)" by (cases r)
  from get_chunk_coherent [OF Cons.prems, of cx cz] obtain c s1 where
    s1: "get_chunk L self cx cz = Inr (c, s1)" "cache_coherent L s1"
        "seed s1 = seed self" "roads s1 = roads self" by blast
  from Cons.IH [OF s1(2)] obtain s2 where
    "get_chunks L s1 rs = Inr s2" "cache_coherent L s2" "seed s2 = seed s1" "roads s2 = roads s1"
    by blast
  with s1 r show ?case by simp
qed

lemma cache_coherent_WorldGenerator: "cache_coherent L (WorldGenerator L sd)"
  by (simp add: cache_coherent_def WorldGenerator_def)

text \<open>
  Claim C1. For every seed and every chunk coordinate pair there is one chunk, the one
  \<open>generate_chunk\<close> computes from the seed and the coordinates, such that a generator
  constructed with that seed returns it from \<open>get_chunk\<close> after any sequence of earlier
  chunk requests, in whatever order, and returns it again (from the cache, which then
  stays as it is) when asked a second time. No request raises. Two generators constructed
  with the same seed therefore return equal chunks. The noise function, the hash of a
  pair of ints and the seeded random generator enter as functions of their arguments.
\<close>

theorem get_chunk_deterministic:
  "\<exists>c. generate_chunk L (WorldGenerator L sd) cx cz = Inr c
     \<and> (\<forall>rs. \<exists>w w1. get_chunks L (WorldGenerator L sd) rs = Inr w
              \<and> get_chunk L w cx cz = Inr (c, w1)
              \<and> get_chunk L w1 cx cz = Inr (c, w1))"
proof -
  from generate_chunk_total [of L "WorldGenerator L sd" cx cz] obtain c where
    c: "generate_chunk L (WorldGenerator L sd) cx cz = Inr c" by blast
  have "\<exists>w w1. get_chunks L (WorldGenerator L sd) rs = Inr w
              \<and> get_chunk L w cx cz = Inr (c, w1)
              \<and> get_chunk L w1 cx cz = Inr (c, w1)" for rs
  proof -
    from get_chunks_coherent [OF cache_coherent_WorldGenerator, of L sd rs] obtain w where
      w: "get_chunks L (WorldGenerator L sd) rs = Inr w" "cache_coherent L w"
         "seed w = seed (WorldGenerator L sd)" "roads w = roads (WorldGenerator L sd)" by blast
    from get_chunk_coherent [OF w(2), of cx cz] obtain c1 w1 where
      w1: "get_chunk L w cx cz = Inr (c1, w1)" "generate_chunk L w cx cz = Inr c1"
          "cache_coherent L w1" "chunks w1 (chunk_key cx cz) = Some c1" by blast
    have "generate_chunk L w cx cz = generate_chunk L (WorldGenerator L sd) cx cz"
      using w(3,4) by (rule generate_chunk_cong)
    with w1(2) c have "c1 = c" by simp
    moreover have "get_chunk L w1 cx cz = Inr (c1, w1)"
      using w1(4) by (simp add: get_chunk_def)
    ultimately show ?thesis using w(1) w1(1) by blast
  qed
  with c show ?thesis by blast
qed

text \<open>
  Seed 42, chunk (16, 10): asked first, or after the chunks (0, 0), (16, 10) and (-1, 3),
  and asked twice in a row, the generator returns the same chunk.
\<close>

theorem get_chunk_deterministic_witness:
  "generate_chunk flat_lib (WorldGenerator flat_lib 42) 16 10 = Inr chunk_16_10
   \<and> (\<exists>w w1. get_chunks flat_lib (WorldGenerator flat_lib 42) [] = Inr w
          \<and> get_chunk flat_lib w 16 10 = Inr (chunk_16_10, w1)
          \<and> get_chunk flat_lib w1 16 10 = Inr (chunk_16_10, w1))
   \<and> (\<exists>w w1. get_chunks flat_lib (WorldGenerator flat_lib 42) [(0, 0), (16, 10), (- 1, 3)] = Inr w
          \<and> get_chunk flat_lib w 16 10 = Inr (chunk_16_10, w1)
          \<and> get_chunk flat_lib w1 16 10 = Inr (chunk_16_10, w1))"
proof -
  have g: "generate_chunk flat_lib (WorldGenerator flat_lib 42) 16 10 = Inr chunk_16_10"
    using generate_chunk_Inr [OF generate_objects_world42]
    by (simp add: chunk_16_10_def world42_def chunk_size_def)
  from get_chunk_deterministic [of flat_lib 42 16 10] obtain c where
    c: "generate_chunk flat_lib (WorldGenerator flat_lib 42) 16 10 = Inr c"
       "\<forall>rs. \<exists>w w1. get_chunks flat_lib (WorldGenerator flat_lib 42) rs = Inr w
              \<and> get_chunk flat_lib w 16 10 = Inr (c, w1)
              \<and> get_chunk flat_lib w1 16 10 = Inr (c, w1)"
    by blast
  from c(1) g have "c = chunk_16_10" by simp
  with c(2) g show ?thesis by blast
qed

section \<open>Properties of game_state.py\<close>

subsection \<open>What one tick does to the table and the event log\<close>

lemma scan_others_eq:
  "scan_others hp now p a table evs = evs @ close_events hp now p a table"
  by (induction table arbitrary: evs)
     (auto simp: close_events_def Let_def collision_def distance3_def)

lemma scan_players_eq:
  "scan_players hp now ps table evs
     = evs @ concat (map (\<lambda>(p, a). close_events hp now p a table) ps)"
  by (induction ps arbitrary: evs) (auto simp: scan_others_eq)

lemma events_process_events:
  "events (process_events hp gs) = events gs @ close_pairs hp (current_time gs) (players gs)"
  by (simp add: process_events_def scan_players_eq close_pairs_def)

lemma players_process_events: "players (process_events hp gs) = players gs"
  by (simp add: process_events_def)

lemma players_remove_player:
  "players (remove_player gs k) = filter (\<lambda>(k', a). k' \<noteq> k) (players gs)"
proof (cases "k \<in> fst ` set (players gs)")
  case True
  then show ?thesis
    by (auto simp: remove_player_def AList.delete_eq intro: filter_cong)
next
  case False
  then have "filter (\<lambda>(k', a). k' \<noteq> k) (players gs) = players gs"
    by (intro filter_True) force
  with False show ?thesis by (simp add: remove_player_def)
qed

lemma players_foldl_remove_player:
  "players (foldl remove_player gs ks) = filter (\<lambda>(k, a). k \<notin> set ks) (players gs)"
proof (induction ks arbitrary: gs)
  case Nil
  then show ?case by simp
next
  case (Cons k ks)
  show ?case
    by (simp add: Cons.IH players_remove_player) (auto intro: filter_cong)
qed

lemma other_fields_remove_player:
  "events (remove_player gs k) = events gs" "current_time (remove_player gs k) = current_time gs"
  by (simp_all add: remove_player_def)

lemma other_fields_foldl_remove_player:
  "events (foldl remove_player gs ks) = events gs \<and>
   current_time (foldl remove_player gs ks) = current_time gs"
  by (induction ks arbitrary: gs) (simp_all add: other_fields_remove_player)

lemma players_cleanup:
  assumes "distinct (map fst (players gs))"
  shows "players (cleanup_inactive_players hp gs)
           = filter (\<lambda>e. \<not> stale hp (current_time gs) e) (players gs)"
proof -
  let ?st = "\<lambda>(player_id, a). last_update (hp a) < current_time gs - playerTimeout"
  have "(case e of (k, a) \<Rightarrow> k \<notin> set (map fst (filter ?st (players gs))))
          = (\<not> stale hp (current_time gs) e)" if e: "e \<in> set (players gs)" for e
  proof -
    obtain k a where ka: "e = (k, a)" by (cases e)
    have "k \<in> fst ` {x \<in> set (players gs). ?st x} \<longleftrightarrow> ?st (k, a)"
    proof
      assume "k \<in> fst ` {x \<in> set (players gs). ?st x}"
      then obtain a' where a': "(k, a') \<in> set (players gs)" "?st (k, a')" by auto
      from assms a'(1) e ka have "a' = a"
        by (metis eq_key_imp_eq_value)
      with a' show "?st (k, a)" by simp
    next
      assume "?st (k, a)"
      with e ka show "k \<in> fst ` {x \<in> set (players gs). ?st x}" by force
    qed
    then show ?thesis by (simp add: ka stale_def)
  qed
  then show ?thesis
    unfolding cleanup_inactive_players_def Let_def players_foldl_remove_player
    by (intro filter_cong) auto
qed

lemma players_update:
  assumes "distinct (map fst (players gs))"
  shows "players (update hp gs now) = filter (\<lambda>e. \<not> stale hp now e) (players gs)"
  using players_cleanup [of "gs\<lparr>current_time := now, tick_count := tick_count gs + 1\<rparr>" hp] assms
  by (simp add: update_def Let_def players_process_events)

lemma events_update:
  "events (update hp gs now) = events gs @ close_pairs hp now (players (update hp gs now))"
  by (simp add: update_def Let_def events_process_events players_process_events
      cleanup_inactive_players_def other_fields_foldl_remove_player)

subsection \<open>Collision events\<close>

lemma concat_key_absent:
  "k \<notin> fst ` set xs \<Longrightarrow> concat (map (\<lambda>(k', v). if k' = k then g v else []) xs) = []"
  by (induction xs) auto

lemma concat_key_unique:
  assumes "distinct (map fst xs)" "(k, v) \<in> set xs"
  shows "concat (map (\<lambda>(k', v'). if k' = k then g v' else []) xs) = g v"
  using assms
proof (induction xs)
  case Nil
  then show ?case by simp
next
  case (Cons x xs)
  obtain k0 v0 where x: "x = (k0, v0)" by (cases x)
  show ?case
  proof (cases "k0 = k")
    case True
    with Cons.prems x have notin: "k \<notin> fst ` set xs" by simp
    with Cons.prems(2) x True have "v0 = v" by force
    with True x notin show ?thesis by (simp add: concat_key_absent)
  next
    case False
    with Cons.prems x have "(k, v) \<in> set xs" "distinct (map fst xs)" by auto
    with Cons.IH False x show ?thesis by simp
  qed
qed

lemma filter_close_events:
  "filter (\<lambda>e. e_players e = [p, q]) (close_events hp now p' a' table)
     = (if p' = p then
          concat (map (\<lambda>(q', b').
             if q' = q then
               (if p \<noteq> q \<and> distance3 (position (hp a')) (position (hp b')) < 2
                then [collision now p q (position (hp a')) (position (hp b'))] else [])
             else []) table)
        else [])"
  by (induction table) (auto simp: close_events_def collision_def)

lemma filter_close_pairs:
  assumes "distinct (map fst table)" "(p, a) \<in> set table" "(q, b) \<in> set table"
  shows "filter (\<lambda>e. e_players e = [p, q]) (close_pairs hp now table)
           = (if p \<noteq> q \<and> distance3 (position (hp a)) (position (hp b)) < 2
              then [collision now p q (position (hp a)) (position (hp b))] else [])"
proof -
  let ?inner = "\<lambda>a'. concat (map (\<lambda>(q', b').
             if q' = q then
               (if p \<noteq> q \<and> distance3 (position (hp a')) (position (hp b')) < 2
                then [collision now p q (position (hp a')) (position (hp b'))] else [])
             else []) table)"
  have "filter (\<lambda>e. e_players e = [p, q]) (close_pairs hp now table)
          = concat (map (\<lambda>(p', a'). if p' = p then ?inner a' else []) table)"
    unfolding close_pairs_def filter_concat map_map
    by (rule arg_cong [where f = concat], rule map_cong [OF refl])
       (auto simp: filter_close_events)
  also have "\<dots> = ?inner a"
    using assms(1,2) by (rule concat_key_unique)
  also have "\<dots> = (if p \<noteq> q \<and> distance3 (position (hp a)) (position (hp b)) < 2
              then [collision now p q (position (hp a)) (position (hp b))] else [])"
    using assms(1,3) by (rule concat_key_unique)
  finally show ?thesis .
qed

lemma distinct_players_update:
  "distinct (map fst (players gs)) \<Longrightarrow> distinct (map fst (players (update hp gs now)))"
  by (simp add: players_update distinct_map_filter)

lemma close_pairs_members:
  assumes "e \<in> set (close_pairs hp now table)"
  shows "\<exists>p a q b. (p, a) \<in> set table \<and> (q, b) \<in> set table \<and> p \<noteq> q
           \<and> e = collision now p q (position (hp a)) (position (hp b))
           \<and> distance3 (position (hp a)) (position (hp b)) < 2"
  using assms
  by (auto simp: close_pairs_def close_events_def split: if_splits)

text \<open>
  Claim C3. One \<open>update()\<close> call (on a player table with distinct keys, as a dict has)
  keeps the players whose last update is not more than 30 seconds before the tick, leaves
  the events recorded before it in place and appends collision events only, each
  with the type \<open>collision\<close>, the time of the tick and the ids of two different players
  that are in the table after the eviction of that call. For two such players \<open>p\<close> and
  \<open>q\<close>, at positions \<open>p1\<close> and \<open>p2\<close>, the new events with the ids \<open>[p, q]\<close> are
  the single event at the midpoint \<open>((x1 + x2) / 2, (y1 + y2) / 2, (z1 + z2) / 2)\<close> when
  the Euclidean distance \<open>sqrt ((x1 - x2)\<^sup>2 + (y1 - y2)\<^sup>2 + (z1 - z2)\<^sup>2)\<close> is strictly
  less than 2, and none when it is 2 or more; the same holds for the ids \<open>[q, p]\<close>, so
  that a close pair is recorded once in each order, with no deduplication. Positions are
  three real coordinates.
\<close>

theorem update_collision_events:
  assumes "distinct (map fst (players gs))"
  shows "players (update hp gs now)
           = filter (\<lambda>(k, a). \<not> last_update (hp a) < now - 30) (players gs)
       \<and> take (length (events gs)) (events (update hp gs now)) = events gs
       \<and> (\<forall>e \<in> set (drop (length (events gs)) (events (update hp gs now))).
             e_type e = ''collision'' \<and> e_time e = now
             \<and> (\<exists>p a q b. (p, a) \<in> set (players (update hp gs now))
                    \<and> (q, b) \<in> set (players (update hp gs now)) \<and> p \<noteq> q
                    \<and> e_players e = [p, q]))
       \<and> (\<forall>p a q b. (p, a) \<in> set (players (update hp gs now))
              \<and> (q, b) \<in> set (players (update hp gs now)) \<and> p \<noteq> q
            \<longrightarrow> (let p1 = position (hp a);
                     p2 = position (hp b);
                     close = (sqrt ((vx p1 - vx p2)\<^sup>2 + (vy p1 - vy p2)\<^sup>2
                                    + (vz p1 - vz p2)\<^sup>2) < 2);
                     mid = \<lparr>vx = (vx p1 + vx p2) / 2, vy = (vy p1 + vy p2) / 2,
                            vz = (vz p1 + vz p2) / 2\<rparr>
                 in filter (\<lambda>e. e_players e = [p, q])
                      (drop (length (events gs)) (events (update hp gs now)))
                      = (if close
                         then [\<lparr>e_type = ''collision'', e_time = now, e_players = [p, q],
                                 e_position = mid\<rparr>]
                         else [])
                  \<and> filter (\<lambda>e. e_players e = [q, p])
                      (drop (length (events gs)) (events (update hp gs now)))
                      = (if close
                         then [\<lparr>e_type = ''collision'', e_time = now, e_players = [q, p],
                                 e_position = mid\<rparr>]
                         else [])))"
proof -
  let ?table = "players (update hp gs now)"
  have new: "drop (length (events gs)) (events (update hp gs now)) = close_pairs hp now ?table"
    and old: "take (length (events gs)) (events (update hp gs now)) = events gs"
    by (simp_all add: events_update)
  have d: "distinct (map fst ?table)"
    using assms by (rule distinct_players_update)
  have members: "\<forall>e \<in> set (close_pairs hp now ?table).
             e_type e = ''collision'' \<and> e_time e = now
             \<and> (\<exists>p a q b. (p, a) \<in> set ?table \<and> (q, b) \<in> set ?table \<and> p \<noteq> q
                    \<and> e_players e = [p, q])"
  proof
    fix e
    assume "e \<in> set (close_pairs hp now ?table)"
    from close_pairs_members [OF this] obtain p a q b where
      "(p, a) \<in> set ?table" "(q, b) \<in> set ?table" "p \<noteq> q"
      "e = collision now p q (position (hp a)) (position (hp b))" by blast
    then show "e_type e = ''collision'' \<and> e_time e = now
             \<and> (\<exists>p a q b. (p, a) \<in> set ?table \<and> (q, b) \<in> set ?table \<and> p \<noteq> q
                    \<and> e_players e = [p, q])"
      by (auto simp: collision_def)
  qed
  have pairs: "(let p1 = position (hp a);
                     p2 = position (hp b);
                     close = (sqrt ((vx p1 - vx p2)\<^sup>2 + (vy p1 - vy p2)\<^sup>2
                                    + (vz p1 - vz p2)\<^sup>2) < 2);
                     mid = \<lparr>vx = (vx p1 + vx p2) / 2, vy = (vy p1 + vy p2) / 2,
                            vz = (vz p1 + vz p2) / 2\<rparr>
                 in filter (\<lambda>e. e_players e = [p, q]) (close_pairs hp now ?table)
                      = (if close
                         then [\<lparr>e_type = ''collision'', e_time = now, e_players = [p, q],
                                 e_position = mid\<rparr>]
                         else [])
                  \<and> filter (\<lambda>e. e_players e = [q, p]) (close_pairs hp now ?table)
                      = (if close
                         then [\<lparr>e_type = ''collision'', e_time = now, e_players = [q, p],
                                 e_position = mid\<rparr>]
                         else []))"
    if h: "(p, a) \<in> set ?table \<and> (q, b) \<in> set ?table \<and> p \<noteq> q" for p a q b
  proof -
    have pq: "filter (\<lambda>e. e_players e = [p, q]) (close_pairs hp now ?table)
                  = (if distance3 (position (hp a)) (position (hp b)) < 2
                     then [collision now p q (position (hp a)) (position (hp b))] else [])"
      using filter_close_pairs [OF d, of p a q b hp now] h by simp
    have qp: "filter (\<lambda>e. e_players e = [q, p]) (close_pairs hp now ?table)
                  = (if distance3 (position (hp b)) (position (hp a)) < 2
                     then [collision now q p (position (hp b)) (position (hp a))] else [])"
      using filter_close_pairs [OF d, of q b p a hp now] h by auto
    have sym: "distance3 (position (hp b)) (position (hp a))
               = distance3 (position (hp a)) (position (hp b))"
      by (simp add: distance3_def power2_commute)
    show ?thesis
      unfolding Let_def pq qp sym
      by (simp add: distance3_def collision_def add.commute)
  qed
  have "(\<lambda>e. \<not> stale hp now e) = (\<lambda>(k, a). \<not> last_update (hp a) < now - 30)"
    by (auto simp: stale_def playerTimeout_def)
  then have table: "?table = filter (\<lambda>(k, a). \<not> last_update (hp a) < now - 30) (players gs)"
    using players_update [OF assms, of hp now] by simp
  show ?thesis
    unfolding new old
    using table members pairs by blast
qed

section \<open>Properties of app.py\<close>

subsection \<open>Broadcast\<close>

lemma broadcast_loop_eq:
  "broadcast_loop hp msg exclude table out
     = out @ map (\<lambda>(k, a). (websocket (hp a), msg)) (filter (\<lambda>(k, a). Some k \<noteq> exclude) table)"
  by (induction table arbitrary: out) auto

lemma outbox_broadcast_message:
  "outbox (broadcast_message srv msg exclude)
     = outbox srv @ map (\<lambda>(k, a). (websocket (heap srv a), msg))
                      (filter (\<lambda>(k, a). Some k \<noteq> exclude) (connected_players srv))"
  by (simp add: broadcast_message_def broadcast_loop_eq)

lemma other_fields_broadcast_message:
  "heap (broadcast_message srv msg exclude) = heap srv"
  "connected_players (broadcast_message srv msg exclude) = connected_players srv"
  "game_state (broadcast_message srv msg exclude) = game_state srv"
  by (simp_all add: broadcast_message_def)

lemma length_filter_other_keys:
  assumes "distinct (map fst xs)" "(k, v) \<in> set xs"
  shows "length (filter (\<lambda>(k', a). k' \<noteq> k) xs) = length xs - 1"
  using assms
proof (induction xs)
  case Nil
  then show ?case by simp
next
  case (Cons x xs)
  obtain k0 v0 where x: "x = (k0, v0)" by (cases x)
  show ?case
  proof (cases "k0 = k")
    case True
    with Cons.prems x have "k \<notin> fst ` set xs" by simp
    then have "filter (\<lambda>(k', a). k' \<noteq> k) xs = xs"
      by (intro filter_True) force
    with True x show ?thesis by simp
  next
    case False
    with Cons.prems x have in_xs: "(k, v) \<in> set xs" and "distinct (map fst xs)" by auto
    with Cons.IH have "length (filter (\<lambda>(k', a). k' \<noteq> k) xs) = length xs - 1" by simp
    moreover from in_xs have "0 < length xs" by (cases xs) auto
    ultimately show ?thesis using False x by simp
  qed
qed

lemma websocket_of_other:
  assumes "table_ok srv" "connected srv h" "(k, a) \<in> set (other_connections srv h)"
  shows "websocket (heap srv a) \<noteq> h_websocket h"
proof
  let ?w = "\<lambda>(k, a). websocket (heap srv a)"
  assume eq: "websocket (heap srv a) = h_websocket h"
  from assms(3) have ka: "(k, a) \<in> set (connected_players srv)" "k \<noteq> h_player_id h"
    by (auto simp: other_connections_def)
  from assms(2) have h: "(h_player_id h, h_player h) \<in> set (connected_players srv)"
    "websocket (heap srv (h_player h)) = h_websocket h"
    by (auto simp: connected_def)
  from assms(1) have inj: "inj_on ?w (set (connected_players srv))"
    by (simp add: table_ok_def distinct_map)
  have "?w (k, a) = ?w (h_player_id h, h_player h)" using eq h(2) by simp
  then have "(k, a) = (h_player_id h, h_player h)" using inj_onD [OF inj _ ka(1) h(1)] by blast
  with ka(2) show False by simp
qed

text \<open>
  A position message from a handler whose player is the one the connection table holds
  under its id (the table with one entry per id and no websocket twice). Let \<open>P\<close> be
  such a player. Then \<open>P\<close>'s position,
  rotation and velocity are the message's fields, each field the message lacks keeping
  its value; \<open>P\<close>'s \<open>last_update\<close> is set to the current time of the game state; and
  one \<open>playerPosition\<close> message carrying \<open>P\<close>'s id and the new values is sent to
  every other entry of the connection table, in table order, and none to \<open>P\<close>'s own
  websocket. The connection table and the game state are as before.
\<close>

theorem position_message_broadcast:
  assumes "table_ok srv" "connected srv h" "m_type msg = ''position''"
  shows "(let srv' = on_message srv h msg;
              p = heap srv (h_player h);
              p' = heap srv' (h_player h);
              sent = PlayerPosition (h_player_id h) (position p') (rotation p') (velocity p')
          in position p' = (case m_position msg of Some v \<Rightarrow> v | None \<Rightarrow> position p)
           \<and> rotation p' = (case m_rotation msg of Some v \<Rightarrow> v | None \<Rightarrow> rotation p)
           \<and> velocity p' = (case m_velocity msg of Some v \<Rightarrow> v | None \<Rightarrow> velocity p)
           \<and> last_update p' = current_time (game_state srv)
           \<and> outbox srv' = outbox srv @ map (\<lambda>(k, a). (websocket (heap srv a), sent)) (other_connections srv h)
           \<and> length (other_connections srv h) = length (connected_players srv) - 1
           \<and> h_websocket h \<notin> fst ` set (map (\<lambda>(k, a). (websocket (heap srv a), sent)) (other_connections srv h))
           \<and> connected_players srv' = connected_players srv
           \<and> game_state srv' = game_state srv)"
proof -
  let ?p = "heap srv (h_player h)"
  let ?p4 = "?p\<lparr>position := (case m_position msg of Some v \<Rightarrow> v | None \<Rightarrow> position ?p),
                 rotation := (case m_rotation msg of Some v \<Rightarrow> v | None \<Rightarrow> rotation ?p),
                 velocity := (case m_velocity msg of Some v \<Rightarrow> v | None \<Rightarrow> velocity ?p),
                 last_update := current_time (game_state srv)\<rparr>"
  let ?srv1 = "srv\<lparr>heap := (heap srv)(h_player h := ?p4)\<rparr>"
  let ?sent = "PlayerPosition (h_player_id h) (position ?p4) (rotation ?p4) (velocity ?p4)"
  have om: "on_message srv h msg = broadcast_message ?srv1 ?sent (Some (h_player_id h))"
    using assms(3)
    by (cases "m_position msg"; cases "m_rotation msg"; cases "m_velocity msg")
       (simp_all add: on_message_def Let_def)
  have ws: "(\<lambda>(k, a). (websocket (heap ?srv1 a), ?sent)) = (\<lambda>(k, a). (websocket (heap srv a), ?sent))"
    by (auto simp: fun_eq_iff)
  have out: "outbox (on_message srv h msg)
               = outbox srv @ map (\<lambda>(k, a). (websocket (heap srv a), ?sent)) (other_connections srv h)"
    unfolding om outbox_broadcast_message other_connections_def ws
    by simp
  have hp: "heap (on_message srv h msg) (h_player h) = ?p4"
    unfolding om by (simp add: other_fields_broadcast_message)
  have notin: "h_websocket h \<notin> fst ` set (map (\<lambda>(k, a). (websocket (heap srv a), ?sent)) (other_connections srv h))"
    using websocket_of_other [OF assms(1,2)] by force
  have len: "length (other_connections srv h) = length (connected_players srv) - 1"
    using assms(1,2) unfolding other_connections_def table_ok_def connected_def
    by (intro length_filter_other_keys [where v = "h_player h"]) simp_all
  show ?thesis
    unfolding Let_def hp out
    using notin len by (simp add: om other_fields_broadcast_message)
qed

subsection \<open>The tables keep their shape\<close>

text \<open>
  The player table keeps one entry per id when players are added and removed, and a
  handshake with a new id on a new websocket leaves the connection table with one entry
  per id and per websocket, the new player connected.
\<close>

lemma distinct_players_remove_player:
  "distinct (map fst (players gs)) \<Longrightarrow> distinct (map fst (players (remove_player gs k)))"
  by (simp add: players_remove_player distinct_map_filter)

lemma distinct_players_add_player:
  "distinct (map fst (players gs)) \<Longrightarrow> distinct (map fst (players (snd (add_player hp gs a r))))"
  by (simp add: add_player_def Let_def distinct_update)

lemma update_new_key: "k \<notin> fst ` set al \<Longrightarrow> AList.update k v al = al @ [(k, v)]"
  by (induction al) auto

lemma heap_add_player:
  "fst (add_player hp gs a r) b = (if b = a then (fst (add_player hp gs a r)) a else hp b)"
  "websocket (fst (add_player hp gs a r) a) = websocket (hp a)"
  by (simp_all add: add_player_def Let_def)

lemma connect_fields:
  "connected_players (fst (connect srv ws init now r))
     = AList.update (h_player_id (snd (connect srv ws init now r))) (next_addr srv)
         (connected_players srv)"
  "h_player (snd (connect srv ws init now r)) = next_addr srv"
  "h_websocket (snd (connect srv ws init now r)) = ws"
  "h_player_id (snd (connect srv ws init now r))
     = (case playerId init of Some i \<Rightarrow> i
        | None \<Rightarrow> ''player_'' @ str_nat (length (connected_players srv) + 1))"
  "websocket (heap (fst (connect srv ws init now r)) (next_addr srv)) = ws"
  "b \<noteq> next_addr srv \<Longrightarrow> heap (fst (connect srv ws init now r)) b = heap srv b"
  by (simp_all add: connect_def Let_def split_beta other_fields_broadcast_message
      add_player_def Player_def split: option.split)

lemma connect_establishes:
  assumes ok: "table_ok srv"
    and new_id: "h_player_id (snd (connect srv ws init now r)) \<notin> fst ` set (connected_players srv)"
    and new_ws: "ws \<notin> (\<lambda>(k, a). websocket (heap srv a)) ` set (connected_players srv)"
    and alloc: "\<forall>e \<in> set (connected_players srv). snd e < next_addr srv"
  shows "table_ok (fst (connect srv ws init now r))
       \<and> connected (fst (connect srv ws init now r)) (snd (connect srv ws init now r))"
proof -
  let ?srv' = "fst (connect srv ws init now r)"
  let ?h = "snd (connect srv ws init now r)"
  have conns: "connected_players ?srv' = connected_players srv @ [(h_player_id ?h, next_addr srv)]"
    using new_id by (simp add: connect_fields(1) update_new_key)
  have old: "websocket (heap ?srv' a) = websocket (heap srv a)"
    if "(k, a) \<in> set (connected_players srv)" for k a
  proof -
    from alloc that have "a \<noteq> next_addr srv" by force
    then show ?thesis by (simp add: connect_fields(6))
  qed
  then have m: "map (\<lambda>(k, a). websocket (heap ?srv' a)) (connected_players srv)
           = map (\<lambda>(k, a). websocket (heap srv a)) (connected_players srv)"
    by (intro map_cong) auto
  have "distinct (map fst (connected_players ?srv'))"
    using ok new_id by (simp add: conns table_ok_def)
  moreover have "distinct (map (\<lambda>(k, a). websocket (heap ?srv' a)) (connected_players ?srv'))"
    using ok new_ws by (simp add: conns m table_ok_def connect_fields(5))
  moreover have "connected ?srv' ?h"
    by (simp add: connected_def conns connect_fields(2,3,5))
  ultimately show ?thesis by (simp add: table_ok_def)
qed

subsection \<open>The session of the examples\<close>

lemma str_nat_2: "str_nat (Suc (Suc 0)) = ''2''"
  by code_simp

lemma one_joined_fields:
  "connected_players one_joined = [(''alice'', 0)]"
  "players (game_state one_joined) = [(''alice'', 0)]"
  "next_addr one_joined = 1"
  "current_time (game_state one_joined) = 0"
  "events (game_state one_joined) = []"
  "snd (connect empty_server 1 alice_init 0 0) = alice"
  by (simp_all add: one_joined_def connect_def empty_server_def alice_init_def Let_def
      add_player_def GameState_def Player_def broadcast_message_def alice_def)

lemma one_joined_heap:
  "heap one_joined 0 = (Player ''alice'' ''Alice'' ''sports'' 1 0)
      \<lparr>position := \<lparr>vx = 20, vy = 1 / 2, vz = 0\<rparr>, rotation := \<lparr>vx = 0, vy = 0, vz = 0\<rparr>\<rparr>"
  by (simp add: one_joined_def connect_def empty_server_def alice_init_def Let_def
      add_player_def GameState_def Player_def broadcast_message_def)

lemma one_joined_outbox: "map fst (outbox one_joined) = [1, 1]"
  by (simp add: one_joined_def connect_def empty_server_def alice_init_def Let_def
      add_player_def GameState_def Player_def broadcast_message_def)

lemma two_joined_fields:
  "connected_players two_joined = [(''alice'', 0), (''player_2'', 1)]"
  "players (game_state two_joined) = [(''alice'', 0), (''player_2'', 1)]"
  "current_time (game_state two_joined) = 0"
  "events (game_state two_joined) = []"
  "snd (connect one_joined 2 anon_init 100 (1 / 2)) = player_2"
  by (simp_all add: two_joined_def connect_def anon_init_def Let_def one_joined_fields
      add_player_def Player_def broadcast_message_def player_2_def str_nat_2 split_beta)

lemma two_joined_heap:
  "heap two_joined 0 = heap one_joined 0"
  "heap two_joined 1 = (Player ''player_2'' ''Player 2'' ''default'' 2 100)
      \<lparr>position := \<lparr>vx = - 20, vy = 1 / 2, vz = 0\<rparr>, rotation := \<lparr>vx = 0, vy = pi, vz = 0\<rparr>\<rparr>"
  by (simp_all add: two_joined_def connect_def anon_init_def Let_def one_joined_fields
      add_player_def Player_def broadcast_message_def str_nat_2 split_beta)

lemma two_joined_outbox: "map fst (outbox two_joined) = [1, 1, 2, 1, 2]"
  by (simp add: two_joined_def connect_def anon_init_def Let_def one_joined_fields
      add_player_def Player_def broadcast_message_def str_nat_2 split_beta one_joined_outbox
      one_joined_heap)

subsection \<open>Eviction\<close>


lemma two_joined_last_update:
  "last_update (heap two_joined 0) = 0" "last_update (heap two_joined (Suc 0)) = 100"
  using two_joined_heap by (simp_all add: one_joined_heap Player_def)

lemma two_joined_websockets:
  "websocket (heap two_joined 0) = 1" "websocket (heap two_joined (Suc 0)) = 2"
  using two_joined_heap by (simp_all add: one_joined_heap Player_def)

lemma two_joined_positions:
  "position (heap two_joined 0) = \<lparr>vx = 20, vy = 1 / 2, vz = 0\<rparr>"
  "position (heap two_joined (Suc 0)) = \<lparr>vx = - 20, vy = 1 / 2, vz = 0\<rparr>"
  using two_joined_heap by (simp_all add: one_joined_heap Player_def)




lemma sqrt1600: "sqrt 1600 = 40"
  by (rule real_sqrt_unique) simp_all

lemma ticked_fields:
  "connected_players ticked = [(''alice'', 0), (''player_2'', 1)]"
  "players (game_state ticked) = [(''alice'', 0), (''player_2'', 1)]"
  "current_time (game_state ticked) = 10"
  "heap ticked = heap two_joined"
  "outbox ticked = outbox two_joined"
proof -
  have d: "distinct (map fst (players (game_state two_joined)))"
    by (simp add: two_joined_fields)
  show "players (game_state ticked) = [(''alice'', 0), (''player_2'', 1)]"
    using players_update [OF d, of "heap two_joined" 10]
    by (simp add: ticked_def game_loop_def two_joined_fields stale_def two_joined_last_update
        playerTimeout_def)
  show "connected_players ticked = [(''alice'', 0), (''player_2'', 1)]"
    "heap ticked = heap two_joined" "outbox ticked = outbox two_joined"
    by (simp_all add: ticked_def game_loop_def two_joined_fields)
  show "current_time (game_state ticked) = 10"
    by (simp add: ticked_def game_loop_def update_def Let_def process_events_def
        cleanup_inactive_players_def other_fields_foldl_remove_player)
qed

lemma events_ticked: "events (game_state ticked) = []"
  using events_update [of "heap two_joined" "game_state two_joined" 10]
  by (simp add: ticked_def game_loop_def ticked_fields [unfolded ticked_def game_loop_def, simplified]
      two_joined_fields close_pairs_def close_events_def two_joined_positions distance3_def
      sqrt1600)

subsection \<open>Position messages in the session\<close>

lemma table_ok_ticked: "table_ok ticked"
  by (simp add: table_ok_def ticked_fields two_joined_websockets)

lemma connected_ticked_alice: "connected ticked alice"
  by (simp add: connected_def ticked_fields two_joined_websockets alice_def)

lemma alice_moved_fields:
  "connected_players (on_message ticked alice alice_moves) = [(''alice'', 0), (''player_2'', 1)]"
  "game_state (on_message ticked alice alice_moves) = game_state ticked"
  "heap (on_message ticked alice alice_moves) (Suc 0) = heap two_joined (Suc 0)"
  "position (heap (on_message ticked alice alice_moves) 0) = \<lparr>vx = 0, vy = 0, vz = 0\<rparr>"
  "last_update (heap (on_message ticked alice alice_moves) 0) = 10"
  "websocket (heap (on_message ticked alice alice_moves) 0) = 1"
  by (simp_all add: on_message_def alice_moves_def alice_def Let_def other_fields_broadcast_message
      ticked_fields two_joined_websockets)

lemma alice_moved_heap1:
  "heap (on_message ticked alice alice_moves) (Suc 0)
     = (Player ''player_2'' ''Player 2'' ''default'' 2 100)
         \<lparr>position := \<lparr>vx = - 20, vy = 1 / 2, vz = 0\<rparr>, rotation := \<lparr>vx = 0, vy = pi, vz = 0\<rparr>\<rparr>"
  using two_joined_heap(2) by (simp add: alice_moved_fields)

lemma table_ok_alice_moved: "table_ok (on_message ticked alice alice_moves)"
  by (simp add: table_ok_def alice_moved_fields two_joined_websockets)

lemma connected_alice_moved_player_2: "connected (on_message ticked alice alice_moves) player_2"
  by (simp add: connected_def alice_moved_fields two_joined_websockets player_2_def)

lemma on_message_tables:
  "connected_players (on_message srv h msg) = connected_players srv"
  "game_state (on_message srv h msg) = game_state srv"
  by (simp_all add: on_message_def Let_def other_fields_broadcast_message)

lemma on_message_position_heap:
  assumes "m_type msg = ''position''"
  shows "heap (on_message srv h msg) =
    (heap srv)(h_player h := (heap srv (h_player h))
       \<lparr>position := (case m_position msg of Some v \<Rightarrow> v | None \<Rightarrow> position (heap srv (h_player h))),
        rotation := (case m_rotation msg of Some v \<Rightarrow> v | None \<Rightarrow> rotation (heap srv (h_player h))),
        velocity := (case m_velocity msg of Some v \<Rightarrow> v | None \<Rightarrow> velocity (heap srv (h_player h))),
        last_update := current_time (game_state srv)\<rparr>)"
  using assms
  by (cases "m_position msg"; cases "m_rotation msg"; cases "m_velocity msg")
     (simp_all add: on_message_def Let_def other_fields_broadcast_message)

lemma both_moved_heap:
  "heap both_moved 0
     = (Player ''alice'' ''Alice'' ''sports'' 1 10)\<lparr>position := \<lparr>vx = 0, vy = 0, vz = 0\<rparr>\<rparr>"
  "heap both_moved (Suc 0)
     = (Player ''player_2'' ''Player 2'' ''default'' 2 10)
         \<lparr>position := \<lparr>vx = 1, vy = 0, vz = 0\<rparr>, rotation := \<lparr>vx = 0, vy = pi, vz = 0\<rparr>,
          velocity := \<lparr>vx = 3, vy = 0, vz = 0\<rparr>\<rparr>"
proof -
  have t: "m_type alice_moves = ''position''" "m_type player_2_moves = ''position''"
    by (simp_all add: alice_moves_def player_2_moves_def)
  have m: "m_position alice_moves = Some \<lparr>vx = 0, vy = 0, vz = 0\<rparr>"
    "m_rotation alice_moves = None" "m_velocity alice_moves = None"
    "m_position player_2_moves = Some \<lparr>vx = 1, vy = 0, vz = 0\<rparr>"
    "m_rotation player_2_moves = None"
    "m_velocity player_2_moves = Some \<lparr>vx = 3, vy = 0, vz = 0\<rparr>"
    by (simp_all add: alice_moves_def player_2_moves_def)
  have a: "h_player alice = 0" "h_player player_2 = Suc 0"
    by (simp_all add: alice_def player_2_def)
  have h0: "heap ticked 0 = (Player ''alice'' ''Alice'' ''sports'' 1 0)
        \<lparr>position := \<lparr>vx = 20, vy = 1 / 2, vz = 0\<rparr>\<rparr>"
    by (simp add: ticked_fields two_joined_heap one_joined_heap Player_def)
  have h1: "heap ticked (Suc 0) = (Player ''player_2'' ''Player 2'' ''default'' 2 100)
      \<lparr>position := \<lparr>vx = - 20, vy = 1 / 2, vz = 0\<rparr>, rotation := \<lparr>vx = 0, vy = pi, vz = 0\<rparr>\<rparr>"
    using two_joined_heap(2) by (simp add: ticked_fields)
  show "heap both_moved 0
     = (Player ''alice'' ''Alice'' ''sports'' 1 10)\<lparr>position := \<lparr>vx = 0, vy = 0, vz = 0\<rparr>\<rparr>"
    unfolding both_moved_def
    by (simp add: on_message_position_heap [OF t(1)] on_message_position_heap [OF t(2)]
        on_message_tables h0 ticked_fields(3) m a Player_def)
  show "heap both_moved (Suc 0)
     = (Player ''player_2'' ''Player 2'' ''default'' 2 10)
         \<lparr>position := \<lparr>vx = 1, vy = 0, vz = 0\<rparr>, rotation := \<lparr>vx = 0, vy = pi, vz = 0\<rparr>,
          velocity := \<lparr>vx = 3, vy = 0, vz = 0\<rparr>\<rparr>"
    unfolding both_moved_def
    by (simp add: on_message_position_heap [OF t(1)] on_message_position_heap [OF t(2)]
        on_message_tables h1 ticked_fields(3) m a Player_def)
qed

lemma both_moved_fields:
  "connected_players both_moved = [(''alice'', 0), (''player_2'', 1)]"
  "players (game_state both_moved) = [(''alice'', 0), (''player_2'', 1)]"
  "events (game_state both_moved) = []"
  unfolding both_moved_def
  by (simp_all add: on_message_tables ticked_fields events_ticked)

text \<open>
  After the tick at time 10 Alice reports her position only: her rotation and velocity
  stay, her \<open>last_update\<close> becomes 10, and the one message goes to websocket 2.
  Then \<open>player_2\<close> reports a position and a velocity: its rotation (0, pi, 0) stays,
  and the one message goes to websocket 1.
\<close>

theorem position_message_broadcast_witness:
  "table_ok ticked \<and> connected ticked alice \<and> m_type alice_moves = ''position''
   \<and> heap ticked 0 = (Player ''alice'' ''Alice'' ''sports'' 1 0)
        \<lparr>position := \<lparr>vx = 20, vy = 1 / 2, vz = 0\<rparr>\<rparr>
   \<and> heap (on_message ticked alice alice_moves) 0
        = (Player ''alice'' ''Alice'' ''sports'' 1 10)\<lparr>position := \<lparr>vx = 0, vy = 0, vz = 0\<rparr>\<rparr>
   \<and> outbox (on_message ticked alice alice_moves)
        = outbox ticked @ [(2, PlayerPosition ''alice'' \<lparr>vx = 0, vy = 0, vz = 0\<rparr>
                                 \<lparr>vx = 0, vy = 0, vz = 0\<rparr> \<lparr>vx = 0, vy = 0, vz = 0\<rparr>)]
   \<and> table_ok (on_message ticked alice alice_moves)
   \<and> connected (on_message ticked alice alice_moves) player_2
   \<and> outbox both_moved
        = outbox (on_message ticked alice alice_moves)
            @ [(1, PlayerPosition ''player_2'' \<lparr>vx = 1, vy = 0, vz = 0\<rparr>
                     \<lparr>vx = 0, vy = pi, vz = 0\<rparr> \<lparr>vx = 3, vy = 0, vz = 0\<rparr>)]"
proof -
  have h0: "heap ticked 0 = (Player ''alice'' ''Alice'' ''sports'' 1 0)
        \<lparr>position := \<lparr>vx = 20, vy = 1 / 2, vz = 0\<rparr>\<rparr>"
    by (simp add: ticked_fields two_joined_heap one_joined_heap Player_def)
  have t: "m_type alice_moves = ''position''" "m_type player_2_moves = ''position''"
    by (simp_all add: alice_moves_def player_2_moves_def)
  have a: "h_player alice = 0" "h_player_id alice = ''alice''" "h_websocket alice = 1"
    "h_player player_2 = Suc 0" "h_player_id player_2 = ''player_2''"
    by (simp_all add: alice_def player_2_def)
  have m: "m_position alice_moves = Some \<lparr>vx = 0, vy = 0, vz = 0\<rparr>"
    "m_rotation alice_moves = None" "m_velocity alice_moves = None"
    by (simp_all add: alice_moves_def)
  have h1: "heap (on_message ticked alice alice_moves) 0
        = (Player ''alice'' ''Alice'' ''sports'' 1 10)\<lparr>position := \<lparr>vx = 0, vy = 0, vz = 0\<rparr>\<rparr>"
    by (simp add: on_message_position_heap [OF t(1)] h0 ticked_fields(3) m a Player_def)
  have o: "other_connections ticked alice = [(''player_2'', 1)]"
    by (simp add: other_connections_def ticked_fields a)
  have o2: "other_connections (on_message ticked alice alice_moves) player_2 = [(''alice'', 0)]"
    by (simp add: other_connections_def on_message_tables ticked_fields a)
  have out1: "outbox (on_message ticked alice alice_moves)
        = outbox ticked @ [(2, PlayerPosition ''alice'' \<lparr>vx = 0, vy = 0, vz = 0\<rparr>
                                 \<lparr>vx = 0, vy = 0, vz = 0\<rparr> \<lparr>vx = 0, vy = 0, vz = 0\<rparr>)]"
    using position_message_broadcast [OF table_ok_ticked connected_ticked_alice t(1)]
    by (simp add: Let_def o h1 a Player_def ticked_fields(4) two_joined_websockets)
  have out2: "outbox both_moved
        = outbox (on_message ticked alice alice_moves)
            @ [(1, PlayerPosition ''player_2'' \<lparr>vx = 1, vy = 0, vz = 0\<rparr>
                     \<lparr>vx = 0, vy = pi, vz = 0\<rparr> \<lparr>vx = 3, vy = 0, vz = 0\<rparr>)]"
    using position_message_broadcast [OF table_ok_alice_moved connected_alice_moved_player_2 t(2)]
    by (simp add: Let_def o2 a both_moved_heap [unfolded both_moved_def] Player_def
        alice_moved_fields both_moved_def)
  show ?thesis
    using h0 h1 t(1) table_ok_ticked connected_ticked_alice out1 out2 table_ok_alice_moved
      connected_alice_moved_player_2
    by simp
qed

subsection \<open>Collisions in the session\<close>

lemma both_moved_positions:
  "position (heap both_moved 0) = \<lparr>vx = 0, vy = 0, vz = 0\<rparr>"
  "position (heap both_moved (Suc 0)) = \<lparr>vx = 1, vy = 0, vz = 0\<rparr>"
  "last_update (heap both_moved 0) = 10" "last_update (heap both_moved (Suc 0)) = 10"
  by (simp_all add: both_moved_heap Player_def)

lemma two_apart_fields:
  "players (game_state two_apart) = [(''alice'', 0), (''player_2'', 1)]"
  "events (game_state two_apart) = []"
  unfolding two_apart_def
  by (simp_all add: on_message_tables both_moved_fields)

lemma two_apart_positions:
  "position (heap two_apart 0) = \<lparr>vx = 0, vy = 0, vz = 0\<rparr>"
  "position (heap two_apart (Suc 0)) = \<lparr>vx = 0, vy = 6 / 5, vz = 8 / 5\<rparr>"
  "last_update (heap two_apart 0) = 10" "last_update (heap two_apart (Suc 0)) = 10"
proof -
  have t: "m_type player_2_retreats = ''position''"
    by (simp add: player_2_retreats_def)
  have m: "m_position player_2_retreats = Some \<lparr>vx = 0, vy = 6 / 5, vz = 8 / 5\<rparr>"
    "m_rotation player_2_retreats = None" "m_velocity player_2_retreats = None"
    by (simp_all add: player_2_retreats_def)
  have a: "h_player player_2 = Suc 0"
    by (simp add: player_2_def)
  have c: "current_time (game_state both_moved) = 10"
    unfolding both_moved_def by (simp add: on_message_tables ticked_fields)
  show "position (heap two_apart 0) = \<lparr>vx = 0, vy = 0, vz = 0\<rparr>"
    "position (heap two_apart (Suc 0)) = \<lparr>vx = 0, vy = 6 / 5, vz = 8 / 5\<rparr>"
    "last_update (heap two_apart 0) = 10" "last_update (heap two_apart (Suc 0)) = 10"
    unfolding two_apart_def
    by (simp_all add: on_message_position_heap [OF t] m a c both_moved_positions)
qed

text \<open>
  After both position messages Alice is at (0, 0, 0) and \<open>player_2\<close> at (1, 0, 0), at
  distance 1. The tick at time 10.05 evicts nobody and appends two events, one for each
  order of the pair, both at the midpoint (0.5, 0, 0). When \<open>player_2\<close> is at
  (0, 1.2, 1.6) instead, at distance exactly 2 with no difference in \<open>x\<close>, the tick
  appends none.
\<close>

theorem update_collision_events_witness:
  "distinct (map fst (players (game_state both_moved)))
   \<and> position (heap both_moved 0) = \<lparr>vx = 0, vy = 0, vz = 0\<rparr>
   \<and> position (heap both_moved 1) = \<lparr>vx = 1, vy = 0, vz = 0\<rparr>
   \<and> players (update (heap both_moved) (game_state both_moved) (201 / 20))
        = [(''alice'', 0), (''player_2'', 1)]
   \<and> events (update (heap both_moved) (game_state both_moved) (201 / 20))
        = [\<lparr>e_type = ''collision'', e_time = 201 / 20, e_players = [''alice'', ''player_2''],
            e_position = \<lparr>vx = 1 / 2, vy = 0, vz = 0\<rparr>\<rparr>,
           \<lparr>e_type = ''collision'', e_time = 201 / 20, e_players = [''player_2'', ''alice''],
            e_position = \<lparr>vx = 1 / 2, vy = 0, vz = 0\<rparr>\<rparr>]
   \<and> distinct (map fst (players (game_state two_apart)))
   \<and> position (heap two_apart 0) = \<lparr>vx = 0, vy = 0, vz = 0\<rparr>
   \<and> position (heap two_apart 1) = \<lparr>vx = 0, vy = 6 / 5, vz = 8 / 5\<rparr>
   \<and> players (update (heap two_apart) (game_state two_apart) (201 / 20))
        = [(''alice'', 0), (''player_2'', 1)]
   \<and> events (update (heap two_apart) (game_state two_apart) (201 / 20)) = []"
proof -
  let ?close = "update (heap both_moved) (game_state both_moved) (201 / 20)"
  let ?apart = "update (heap two_apart) (game_state two_apart) (201 / 20)"
  have d: "distinct (map fst (players (game_state both_moved)))"
    by (simp add: both_moved_fields)
  have d': "distinct (map fst (players (game_state two_apart)))"
    by (simp add: two_apart_fields)
  note close = update_collision_events [OF d, of "heap both_moved" "201 / 20"]
  note apart = update_collision_events [OF d', of "heap two_apart" "201 / 20"]
  have p: "players ?close = [(''alice'', 0), (''player_2'', 1)]"
    using close [THEN conjunct1]
    by (simp add: both_moved_fields both_moved_positions)
  have p': "players ?apart = [(''alice'', 0), (''player_2'', 1)]"
    using apart [THEN conjunct1]
    by (simp add: two_apart_fields two_apart_positions)
  have ids: "e_players e = [''alice'', ''player_2''] \<or> e_players e = [''player_2'', ''alice'']"
    if "e \<in> set (events ?apart)" for e
    using apart [THEN conjunct2, THEN conjunct2, THEN conjunct1] that
    unfolding p' by (auto simp: two_apart_fields)
  have none: "filter (\<lambda>e. e_players e = [''alice'', ''player_2'']) (events ?apart) = []
            \<and> filter (\<lambda>e. e_players e = [''player_2'', ''alice'']) (events ?apart) = []"
    using apart [THEN conjunct2, THEN conjunct2, THEN conjunct2, rule_format,
        of "''alice''" 0 "''player_2''" 1]
    unfolding p'
    by (simp add: two_apart_fields two_apart_positions Let_def power2_eq_square)
  have e': "events ?apart = []"
  proof (rule ccontr)
    assume "events ?apart \<noteq> []"
    then obtain e where e: "e \<in> set (events ?apart)"
      by (cases "events ?apart") auto
    from ids [OF e] none e show False
      by (auto simp: filter_empty_conv)
  qed
  have e: "events ?close
        = [\<lparr>e_type = ''collision'', e_time = 201 / 20, e_players = [''alice'', ''player_2''],
            e_position = \<lparr>vx = 1 / 2, vy = 0, vz = 0\<rparr>\<rparr>,
           \<lparr>e_type = ''collision'', e_time = 201 / 20, e_players = [''player_2'', ''alice''],
            e_position = \<lparr>vx = 1 / 2, vy = 0, vz = 0\<rparr>\<rparr>]"
    using close [THEN conjunct2, THEN conjunct1]
    by (simp add: p events_update both_moved_fields close_pairs_def close_events_def
        both_moved_positions distance3_def collision_def)
  from d d' p p' e e' show ?thesis
    by (simp add: both_moved_positions two_apart_positions)
qed

subsection \<open>Teardown\<close>

lemma on_exception_two_joined:
  "connected_players (on_exception two_joined alice) = [(''player_2'', 1)]"
  "players (game_state (on_exception two_joined alice)) = [(''player_2'', 1)]"
  "outbox (on_exception two_joined alice) = outbox two_joined"
  by (simp_all add: on_exception_def alice_def two_joined_fields Let_def remove_player_def)

lemma on_disconnect_two_joined:
  "connected_players (on_disconnect two_joined alice) = [(''player_2'', 1)]"
  "players (game_state (on_disconnect two_joined alice)) = [(''player_2'', 1)]"
  "outbox (on_disconnect two_joined alice) = outbox two_joined @ [(2, PlayerLeft ''alice'')]"
  by (simp_all add: on_disconnect_def alice_def two_joined_fields Let_def remove_player_def
      outbox_broadcast_message other_fields_broadcast_message two_joined_websockets)

text \<open>
  Claim C7 against the code. Alice and \<open>player_2\<close> are connected. When Alice's next
  frame does not parse, the handler removes her from the connection table and from the
  player table and sends nothing: \<open>player_2\<close> gets no \<open>playerLeft\<close>. When her
  connection ends instead, the same removal is followed by \<open>playerLeft\<close> to websocket 2.
\<close>

theorem malformed_message_sends_no_playerLeft:
  "connected two_joined alice
   \<and> connected_players (fst (receive two_joined alice Unparseable)) = [(''player_2'', 1)]
   \<and> players (game_state (fst (receive two_joined alice Unparseable))) = [(''player_2'', 1)]
   \<and> outbox (fst (receive two_joined alice Unparseable)) = outbox two_joined
   \<and> outbox (fst (receive two_joined alice WebSocketDisconnect))
        = outbox two_joined @ [(2, PlayerLeft ''alice'')]"
proof -
  have "connected two_joined alice"
    by (simp add: connected_def two_joined_fields two_joined_websockets alice_def)
  then show ?thesis
    by (simp add: receive_def on_exception_two_joined on_disconnect_two_joined)
qed

text \<open>
  The disconnect handler tests the player id for truth, so a player who joined with the
  empty string as id is not removed at all when the connection ends.
\<close>

lemma disconnect_with_empty_id_keeps_player:
  "h_player_id nameless = []
   \<and> connected_players nameless_joined = [([], 0)]
   \<and> players (game_state nameless_joined) = [([], 0)]
   \<and> receive nameless_joined nameless WebSocketDisconnect = (nameless_joined, False)"
proof -
  have "h_player_id nameless = []"
    by (simp add: nameless_def connect_def nameless_init_def Let_def split_beta)
  moreover have "connected_players nameless_joined = [([], 0)]"
    "players (game_state nameless_joined) = [([], 0)]"
    by (simp_all add: nameless_joined_def connect_def empty_server_def nameless_init_def Let_def
        add_player_def GameState_def Player_def broadcast_message_def)
  ultimately show ?thesis
    by (simp add: receive_def on_disconnect_def)
qed

subsection \<open>Two connections with one id\<close>

lemma two_joined_next_addr: "next_addr two_joined = 2"
  by (simp add: two_joined_def connect_def anon_init_def Let_def one_joined_fields
      add_player_def Player_def broadcast_message_def split_beta)

lemma alice_left_fields:
  "connected_players alice_left = [(''player_2'', 1)]"
  "players (game_state alice_left) = [(''player_2'', 1)]"
  "heap alice_left = heap two_joined"
  "next_addr alice_left = 2"
  "outbox alice_left = outbox two_joined @ [(2, PlayerLeft ''alice'')]"
  unfolding alice_left_def
  by (simp_all add: on_disconnect_two_joined)
     (simp_all add: on_disconnect_def alice_def two_joined_fields Let_def remove_player_def
        other_fields_broadcast_message two_joined_next_addr broadcast_message_def)

lemma newcomer_fields:
  "newcomer = \<lparr>h_websocket = 3, h_player_id = ''player_2'', h_player = 2\<rparr>"
  "connected_players newcomer_joined = [(''player_2'', 2)]"
  "players (game_state newcomer_joined) = [(''player_2'', 2)]"
  "heap newcomer_joined (Suc 0) = heap two_joined (Suc 0)"
  "websocket (heap newcomer_joined 2) = 3"
  by (simp_all add: newcomer_def newcomer_joined_def connect_def anon_init_def Let_def
      alice_left_fields add_player_def Player_def other_fields_broadcast_message str_nat_2
      split_beta)

lemma newcomer_outbox:
  "outbox newcomer_joined
     = outbox alice_left
       @ [(3, Init ''player_2''
                (get_public_state (heap newcomer_joined) (game_state newcomer_joined))
                (world_seed (game_state newcomer_joined))),
          (3, PlayerJoined ''player_2'' ''Player 2'' ''default''
                \<lparr>vx = 20, vy = 1 / 2, vz = 0\<rparr> \<lparr>vx = 0, vy = 0, vz = 0\<rparr>)]"
  by (simp add: newcomer_def newcomer_joined_def connect_def anon_init_def Let_def
      alice_left_fields add_player_def Player_def broadcast_message_def str_nat_2
      split_beta)

text \<open>
  Claim C8 against the code. Alice and an anonymous client are connected, the latter as
  \<open>player_2\<close> on websocket 2. Alice's connection ends and a third client joins
  anonymously on websocket 3: the placeholder id is built from the size of the table, so
  the newcomer is \<open>player_2\<close> as well and its entry replaces the one of the first
  \<open>player_2\<close>, whose connection is still open (no frame has ended it, and nothing was
  sent to close it). A \<open>position\<close> message from either of the two is then sent to
  nobody: the only entry of the table carries the sender's id and is excluded. The other
  connected player does not get the \<open>playerPosition\<close> message, although the sender's
  player object is updated.
\<close>

theorem position_message_misses_live_connection:
  "snd (connect one_joined 2 anon_init 100 (1 / 2))
        = \<lparr>h_websocket = 2, h_player_id = ''player_2'', h_player = 1\<rparr>
   \<and> player_2 = \<lparr>h_websocket = 2, h_player_id = ''player_2'', h_player = 1\<rparr>
   \<and> newcomer = \<lparr>h_websocket = 3, h_player_id = ''player_2'', h_player = 2\<rparr>
   \<and> connected_players two_joined = [(''alice'', 0), (''player_2'', 1)]
   \<and> connected_players alice_left = [(''player_2'', 1)]
   \<and> connected_players newcomer_joined = [(''player_2'', 2)]
   \<and> websocket (heap newcomer_joined 1) = 2
   \<and> websocket (heap newcomer_joined 2) = 3
   \<and> map fst (outbox newcomer_joined) = [1, 1, 2, 1, 2, 2, 3, 3]
   \<and> outbox (fst (receive newcomer_joined newcomer (Text player_2_moves)))
        = outbox newcomer_joined
   \<and> outbox (fst (receive newcomer_joined player_2 (Text player_2_moves)))
        = outbox newcomer_joined
   \<and> position (heap (fst (receive newcomer_joined player_2 (Text player_2_moves))) 1)
        = \<lparr>vx = 1, vy = 0, vz = 0\<rparr>"
proof -
  have h: "h_player_id newcomer = ''player_2''" "h_player_id player_2 = ''player_2''"
    "h_player player_2 = Suc 0"
    by (simp_all add: newcomer_fields player_2_def)
  have t: "m_type player_2_moves = ''position''"
    "m_position player_2_moves = Some \<lparr>vx = 1, vy = 0, vz = 0\<rparr>"
    by (simp_all add: player_2_moves_def)
  have out: "outbox (on_message newcomer_joined newcomer player_2_moves) = outbox newcomer_joined"
    "outbox (on_message newcomer_joined player_2 player_2_moves) = outbox newcomer_joined"
    by (simp_all add: on_message_def t Let_def outbox_broadcast_message newcomer_fields(2) h
        other_fields_broadcast_message)
  have pos: "position (heap (on_message newcomer_joined player_2 player_2_moves) 1)
        = \<lparr>vx = 1, vy = 0, vz = 0\<rparr>"
    by (simp add: on_message_position_heap [OF t(1)] t h)
  have ws: "websocket (heap newcomer_joined 1) = 2"
    using newcomer_fields(4) two_joined_websockets by simp
  have sends: "map fst (outbox newcomer_joined) = [1, 1, 2, 1, 2, 2, 3, 3]"
    by (simp add: newcomer_outbox alice_left_fields two_joined_outbox)
  show ?thesis
    using out pos ws sends
    by (simp add: receive_def newcomer_fields alice_left_fields two_joined_fields player_2_def)
qed

end
